theory Spec2Isabelle
  imports Main "HOL-Library.AList"
begin

section \<open>Settings loader of \<open>api/settings.py\<close>\<close>

text \<open>
  The development embeds \<^verbatim>\<open>_AbstractSettings.load\<close>, its helpers
  \<^verbatim>\<open>_convert_to_time\<close> and \<^verbatim>\<open>_process_filepaths\<close>, and the schema
  \<^verbatim>\<open>PreparationSettings\<close>. Exceptions are values of a sum type, the log and the
  file accesses are a trace of events returned beside the result, and a Python dict is
  an association list with distinct keys in insertion order.
\<close>

subsection \<open>Values, types and exceptions\<close>

text \<open>
  The annotation types that occur in settings classes. The last four are the members
  of \<^verbatim>\<open>_TIME_TYPES = {Period, Timestamp, Timedelta, DateOffset}\<close>.
\<close>

datatype py_type = Str | Float | Integer | Bool | Path | Period | Timestamp | Timedelta | DateOffset

definition TIME_TYPES :: "py_type list" where
  "TIME_TYPES = [Period, Timestamp, Timedelta, DateOffset]"

text \<open>
  Python values as they reach the loader. \<open>PyFloat m e\<close> is the decimal literal
  \<open>m \<times> 10^e\<close> as written in a document (values are only stored and compared, never
  computed with). \<open>PyTime t v\<close> is an object of the time-like type \<open>t\<close>.
\<close>

datatype pyval =
    PyNone
  | PyBool bool
  | PyInt int
  | PyFloat int int
  | PyStr string
  | PyPath string
  | PyTime py_type pyval

datatype exn =
    NotDataClassError
  | MissingParamError
  | FileNotFoundError
  | YAMLError
  | AttributeError
  | KeyError
  | TypeError
  | ValueError
  | FrozenInstanceError

type_synonym dict = "(string \<times> pyval) list"

subsection \<open>Dict operations\<close>

text \<open>
  \<^verbatim>\<open>d[k] = v\<close> is \<open>AList.update k v d\<close>: an existing key keeps its place, a new key
  goes to the end. \<^verbatim>\<open>d.update(items)\<close> stores the items one after the other, so a
  later item wins; building a dict from a sequence of pairs is an update of the
  empty dict.
\<close>

definition keys :: "(string \<times> 'v) list \<Rightarrow> string list" where
  "keys d = map fst d"

definition dict_update :: "(string \<times> 'v) list \<Rightarrow> (string \<times> 'v) list \<Rightarrow> (string \<times> 'v) list" where
  "dict_update d items = fold (\<lambda>(k, v) acc. AList.update k v acc) items d"

definition dict_of_items :: "(string \<times> 'v) list \<Rightarrow> (string \<times> 'v) list" where
  "dict_of_items items = dict_update [] items"

subsection \<open>Settings classes\<close>

text \<open>
  A class that inherits \<^verbatim>\<open>load\<close>: whether \<^verbatim>\<open>@dataclass\<close> was applied, whether
  with \<^verbatim>\<open>frozen=True\<close>, the annotations of the class body in order, and the default
  values of the fields that have one.
\<close>

record settings_class =
  is_dataclass :: bool
  frozen :: bool
  annotations :: "(string \<times> py_type) list"
  defaults :: dict

text \<open>
  \<^verbatim>\<open>get_type_hints(cls)\<close> is a dict from name to type; a name annotated twice keeps
  the later type.
\<close>

definition get_type_hints :: "settings_class \<Rightarrow> (string \<times> py_type) list" where
  "get_type_hints cls = dict_of_items (annotations cls)"

text \<open>
  \<^verbatim>\<open>@dataclass(frozen=True) class PreparationSettings(_AbstractSettings)\<close> with its
  five annotated fields, none of which has a default.
\<close>

definition PreparationSettings :: settings_class where
  "PreparationSettings =
     \<lparr> is_dataclass = True,
       frozen = True,
       annotations =
         [(''target'', Str), (''test_size'', Float), (''in_path'', Path),
          (''out_train'', Path), (''out_test'', Path)],
       defaults = [] \<rparr>"

subsection \<open>Files and the trace of effects\<close>

text \<open>
  What \<^verbatim>\<open>safe_load\<close> finds in a document: a mapping node with its pairs in the
  order of the text, or anything else (a scalar, a sequence, an empty document). A
  path either has no file behind it, a file that is not valid YAML, or a document.
\<close>

datatype yaml_node = MappingNode "(string \<times> pyval) list" | OtherNode

datatype config_file = NoFile | BadYaml | Yaml yaml_node

type_synonym filesystem = "string \<Rightarrow> config_file"

text \<open>
  The observable effects of a call, in order: an attempt to open a path, and the
  warning about duplicated parameters.
\<close>

datatype event = Opened string | Warning

text \<open>
  The argument \<^verbatim>\<open>filepaths: str | Path | Iterable[str | Path] | None\<close>.
\<close>

datatype pathlike = StrPath string | PurePath string

datatype filepaths_arg = FNone | FOne pathlike | FMany "pathlike list"

fun path_str :: "pathlike \<Rightarrow> string" where
  "path_str (StrPath s) = s"
| "path_str (PurePath s) = s"

text \<open>
  The test \<^verbatim>\<open>if filepaths:\<close>: \<^verbatim>\<open>None\<close>, the empty string and the empty list are
  false, a \<^verbatim>\<open>Path\<close> object is always true.
\<close>

fun truthy :: "filepaths_arg \<Rightarrow> bool" where
  "truthy FNone = False"
| "truthy (FOne (StrPath s)) = (s \<noteq> [])"
| "truthy (FOne (PurePath s)) = True"
| "truthy (FMany ps) = (ps \<noteq> [])"

text \<open>\<^verbatim>\<open>_process_filepaths\<close>: a single path becomes a one-element list.\<close>

fun process_filepaths :: "filepaths_arg \<Rightarrow> pathlike list" where
  "process_filepaths FNone = []"
| "process_filepaths (FOne p) = [p]"
| "process_filepaths (FMany ps) = ps"

subsection \<open>The loader\<close>

text \<open>
  \<^verbatim>\<open>safe_load(file)\<close> followed by \<^verbatim>\<open>content.items()\<close>: a mapping node becomes a
  dict (a repeated key keeps the later value); on any other document
  \<^verbatim>\<open>.items()\<close> raises \<^verbatim>\<open>AttributeError\<close>.
\<close>

definition read_config :: "filesystem \<Rightarrow> pathlike \<Rightarrow> exn + dict" where
  "read_config fs p =
     (case fs (path_str p) of
        NoFile \<Rightarrow> Inl FileNotFoundError
      | BadYaml \<Rightarrow> Inl YAMLError
      | Yaml OtherNode \<Rightarrow> Inl AttributeError
      | Yaml (MappingNode kvs) \<Rightarrow> Inr (dict_of_items kvs))"

text \<open>
  Lines 82 to 90 for one file: keep the items whose key is a field (the items of a
  dict have distinct keys, so the comprehension is a filter), warn when the
  accumulator already holds one of the keys, then update the accumulator.
\<close>

definition select_fields :: "string list \<Rightarrow> dict \<Rightarrow> dict" where
  "select_fields field_names content = filter (\<lambda>(field, value). field \<in> set field_names) content"

definition merge_content :: "dict \<Rightarrow> dict \<Rightarrow> event list \<times> dict" where
  "merge_content settings content =
     (if \<exists>k \<in> set (keys settings). k \<in> set (keys content) then [Warning] else [],
      dict_update settings content)"

text \<open>The loop over the file paths (lines 78 to 90); the first exception ends it.\<close>

fun read_files :: "filesystem \<Rightarrow> string list \<Rightarrow> pathlike list \<Rightarrow> dict \<Rightarrow> event list \<times> (exn + dict)" where
  "read_files fs field_names [] settings = ([], Inr settings)"
| "read_files fs field_names (p # ps) settings =
     (case read_config fs p of
        Inl e \<Rightarrow> ([Opened (path_str p)], Inl e)
      | Inr content \<Rightarrow>
          (case merge_content settings (select_fields field_names content) of
             (warn, settings') \<Rightarrow>
               (case read_files fs field_names ps settings' of
                  (tr, r) \<Rightarrow> (Opened (path_str p) # warn @ tr, r))))"

text \<open>
  Line 92: the keyword arguments whose value is not \<^verbatim>\<open>None\<close>.
\<close>

definition overrides :: "dict \<Rightarrow> dict" where
  "overrides params = filter (\<lambda>(field, value). value \<noteq> PyNone) params"

text \<open>
  Lines 71 to 92: the fields, the files in order, then the overrides.
\<close>

definition merge_sources ::
  "settings_class \<Rightarrow> filesystem \<Rightarrow> filepaths_arg \<Rightarrow> dict \<Rightarrow> event list \<times> (exn + dict)" where
  "merge_sources cls fs filepaths params =
     (let field_names = keys (get_type_hints cls) in
      case (if truthy filepaths
            then read_files fs field_names (process_filepaths filepaths) []
            else ([], Inr [])) of
        (tr, Inl e) \<Rightarrow> (tr, Inl e)
      | (tr, Inr settings) \<Rightarrow> (tr, Inr (dict_update settings (overrides params))))"

text \<open>
  \<^verbatim>\<open>_convert_to_time\<close>. The constructors of the time-like types belong to pandas;
  they are the parameter \<open>ctor\<close>, which may raise. The loop runs over the dict
  \<^verbatim>\<open>time_field_types\<close>; \<^verbatim>\<open>settings[field]\<close> on a missing key raises
  \<^verbatim>\<open>KeyError\<close>.
\<close>

type_synonym constructor = "py_type \<Rightarrow> pyval \<Rightarrow> exn + pyval"

definition time_field_types :: "settings_class \<Rightarrow> dict \<Rightarrow> (string \<times> py_type) list" where
  "time_field_types cls settings =
     filter (\<lambda>(field, field_type). field \<in> set (keys settings) \<and> field_type \<in> set TIME_TYPES)
       (get_type_hints cls)"

fun convert_loop :: "constructor \<Rightarrow> (string \<times> py_type) list \<Rightarrow> dict \<Rightarrow> exn + dict" where
  "convert_loop ctor [] settings = Inr settings"
| "convert_loop ctor ((field, field_type) # rest) settings =
     (case map_of settings field of
        None \<Rightarrow> Inl KeyError
      | Some v \<Rightarrow>
          (if v \<noteq> PyNone
           then (case ctor field_type v of
                   Inl e \<Rightarrow> Inl e
                 | Inr w \<Rightarrow> convert_loop ctor rest (AList.update field w settings))
           else convert_loop ctor rest settings))"

definition convert_to_time :: "settings_class \<Rightarrow> constructor \<Rightarrow> dict \<Rightarrow> exn + dict" where
  "convert_to_time cls ctor settings = convert_loop ctor (time_field_types cls settings) settings"

text \<open>
  \<^verbatim>\<open>cls(**settings)\<close> for a dataclass whose fields are its annotated names: a keyword
  that is no field, or a field with neither a keyword nor a default, raises
  \<^verbatim>\<open>TypeError\<close>; otherwise each field takes its keyword or its default.
\<close>

definition field_value :: "settings_class \<Rightarrow> dict \<Rightarrow> string \<Rightarrow> pyval" where
  "field_value cls settings f =
     (case map_of settings f of
        Some v \<Rightarrow> v
      | None \<Rightarrow> (case map_of (defaults cls) f of Some d \<Rightarrow> d | None \<Rightarrow> PyNone))"

definition construct :: "settings_class \<Rightarrow> dict \<Rightarrow> exn + dict" where
  "construct cls settings =
     (let names = keys (get_type_hints cls) in
      if \<exists>k \<in> set (keys settings). k \<notin> set names then Inl TypeError
      else if \<exists>f \<in> set names. f \<notin> set (keys settings) \<and> f \<notin> set (keys (defaults cls))
      then Inl TypeError
      else Inr (map (\<lambda>f. (f, field_value cls settings f)) names))"

text \<open>
  \<^verbatim>\<open>load\<close>. The conversion (line 94) is outside the \<^verbatim>\<open>try\<close>, so what it raises
  is not caught; a \<^verbatim>\<open>TypeError\<close> of the construction becomes
  \<^verbatim>\<open>MissingParamError\<close>.
\<close>

definition load ::
  "settings_class \<Rightarrow> constructor \<Rightarrow> filesystem \<Rightarrow> filepaths_arg \<Rightarrow> dict \<Rightarrow> event list \<times> (exn + dict)" where
  "load cls ctor fs filepaths params =
     (if \<not> is_dataclass cls then ([], Inl NotDataClassError)
      else
        (case merge_sources cls fs filepaths params of
           (tr, Inl e) \<Rightarrow> (tr, Inl e)
         | (tr, Inr settings) \<Rightarrow>
             (case convert_to_time cls ctor settings of
                Inl e \<Rightarrow> (tr, Inl e)
              | Inr settings' \<Rightarrow>
                  (case construct cls settings' of
                     Inl e \<Rightarrow> (tr, Inl (if e = TypeError then MissingParamError else e))
                   | Inr inst \<Rightarrow> (tr, Inr inst)))))"

text \<open>
  Assigning to a field of an instance: the \<^verbatim>\<open>__setattr__\<close> of a frozen dataclass
  raises \<^verbatim>\<open>FrozenInstanceError\<close>.
\<close>

definition setattr :: "settings_class \<Rightarrow> dict \<Rightarrow> string \<Rightarrow> pyval \<Rightarrow> exn + dict" where
  "setattr cls inst name v =
     (if frozen cls then Inl FrozenInstanceError else Inr (AList.update name v inst))"

subsection \<open>Notions used to state the properties\<close>

text \<open>
  The paths that \<^verbatim>\<open>load\<close> reads, in order: none when \<^verbatim>\<open>filepaths\<close> is false.
\<close>

definition paths_read :: "filepaths_arg \<Rightarrow> pathlike list" where
  "paths_read filepaths = (if truthy filepaths then process_filepaths filepaths else [])"

text \<open>
  The value that the config file at a path gives to a key, if the file can be read
  as a mapping and has the key.
\<close>

definition file_value :: "filesystem \<Rightarrow> pathlike \<Rightarrow> string \<Rightarrow> pyval option" where
  "file_value fs p f = (case read_config fs p of Inl e \<Rightarrow> None | Inr content \<Rightarrow> map_of content f)"

text \<open>
  What \<^verbatim>\<open>_convert_to_time\<close> does to the value \<open>v\<close> of the key \<open>f\<close>: the
  constructor of the declared type when that type is time-like and \<open>v\<close> is not
  \<^verbatim>\<open>None\<close>, nothing otherwise.
\<close>

definition coerce :: "settings_class \<Rightarrow> constructor \<Rightarrow> string \<Rightarrow> pyval \<Rightarrow> exn + pyval" where
  "coerce cls ctor f v =
     (case map_of (get_type_hints cls) f of
        None \<Rightarrow> Inr v
      | Some t \<Rightarrow> if t \<in> set TIME_TYPES \<and> v \<noteq> PyNone then ctor t v else Inr v)"

text \<open>
  The file system in which every mapping document has lost the keys that are not
  fields of the class.
\<close>

definition drop_unknown_keys :: "settings_class \<Rightarrow> filesystem \<Rightarrow> filesystem" where
  "drop_unknown_keys cls fs path =
     (case fs path of
        Yaml (MappingNode kvs) \<Rightarrow>
          Yaml (MappingNode (filter (\<lambda>(k, v). k \<in> set (keys (get_type_hints cls))) kvs))
      | other \<Rightarrow> other)"

subsection \<open>Concrete inputs\<close>

text \<open>
  A constructor that never raises and returns the object of type \<open>t\<close> built from
  \<open>v\<close>. It stands for the pandas constructors at concrete inputs; the general
  statements hold for every constructor.
\<close>

definition object_ctor :: constructor where
  "object_ctor t v = Inr (PyTime t v)"

text \<open>A frozen dataclass with a time-like field, and no defaults.\<close>

definition EventSettings :: settings_class where
  "EventSettings =
     \<lparr> is_dataclass = True,
       frozen = True,
       annotations = [(''name'', Str), (''start'', Timestamp)],
       defaults = [] \<rparr>"

text \<open>A dataclass that is not frozen and whose only field has a default.\<close>

definition RetrySettings :: settings_class where
  "RetrySettings =
     \<lparr> is_dataclass = True,
       frozen = False,
       annotations = [(''retries'', Integer)],
       defaults = [(''retries'', PyInt 3)] \<rparr>"

text \<open>A subclass of \<^verbatim>\<open>_AbstractSettings\<close> that was not made a dataclass.\<close>

definition PlainSettings :: settings_class where
  "PlainSettings =
     \<lparr> is_dataclass = False,
       frozen = False,
       annotations = [(''target'', Str)],
       defaults = [] \<rparr>"

text \<open>
  A file system with six files, one of them an empty document; every other path has
  no file.
\<close>

definition example_fs :: filesystem where
  "example_fs path =
     (if path = ''config.yaml'' then
        Yaml (MappingNode [(''target'', PyStr ''quality''), (''test_size'', PyFloat 2 (-1)),
                           (''comment'', PyStr ''red wine'')])
      else if path = ''extra.yaml'' then
        Yaml (MappingNode [(''test_size'', PyFloat 3 (-1))])
      else if path = ''null.yaml'' then
        Yaml (MappingNode [(''target'', PyNone)])
      else if path = ''events.yaml'' then
        Yaml (MappingNode [(''name'', PyStr ''launch''), (''start'', PyStr ''2023-01-01'')])
      else if path = ''late.yaml'' then
        Yaml (MappingNode [(''start'', PyStr ''2024-06-01'')])
      else if path = ''empty.yaml'' then Yaml OtherNode
      else NoFile)"

text \<open>The overrides that the command line entry point always passes.\<close>

definition io_paths :: dict where
  "io_paths =
     [(''in_path'', PyPath ''data/winequality-red.csv''),
      (''out_train'', PyPath ''data/train.parquet''),
      (''out_test'', PyPath ''data/test.parquet'')]"

section \<open>Auxiliary facts\<close>

subsection \<open>Dicts\<close>

lemma map_of_dict_update: "map_of (dict_update d xs) = map_of d ++ map_of (rev xs)"
proof (induction xs arbitrary: d)
  case Nil
  show ?case by (simp add: dict_update_def)
next
  case (Cons x xs)
  obtain k v where x: "x = (k, v)" by (cases x)
  have "map_of (dict_update d (x # xs)) = map_of (dict_update (AList.update k v d) xs)"
    by (simp add: dict_update_def x)
  also have "\<dots> = (map_of d)(k \<mapsto> v) ++ map_of (rev xs)"
    by (simp only: Cons.IH update_conv')
  also have "\<dots> = map_of d ++ map_of (rev (x # xs))"
    by (simp add: x map_add_upd_left fun_eq_iff map_add_def split: option.splits)
  finally show ?case .
qed

lemma distinct_dict_update:
  "distinct (map fst d) \<Longrightarrow> distinct (map fst (dict_update d xs))"
proof (induction xs arbitrary: d)
  case Nil
  then show ?case by (simp add: dict_update_def)
next
  case (Cons x xs)
  have "dict_update d (x # xs) = dict_update (AList.update (fst x) (snd x) d) xs"
    by (simp add: dict_update_def case_prod_beta)
  with Cons show ?case by (simp add: distinct_update)
qed

lemma distinct_dict_of_items: "distinct (map fst (dict_of_items xs))"
  by (simp add: dict_of_items_def distinct_dict_update)

lemma keys_dict_update: "set (keys (dict_update d xs)) = set (keys d) \<union> set (keys xs)"
proof -
  have "dom (map_of (dict_update d xs)) = dom (map_of d) \<union> dom (map_of xs)"
    by (simp add: map_of_dict_update dom_map_of_conv_image_fst Un_commute)
  then show ?thesis by (simp add: keys_def dom_map_of_conv_image_fst)
qed

lemma map_of_rev_distinct: "distinct (map fst xs) \<Longrightarrow> map_of (rev xs) = map_of xs"
proof -
  assume d: "distinct (map fst xs)"
  then have "distinct (map fst (rev xs))" by (simp add: rev_map [symmetric])
  moreover have "set (rev xs) = set xs" by simp
  ultimately show ?thesis using d map_of_inject_set by blast
qed

lemma map_of_filter_key:
  "map_of (filter (\<lambda>(k, v). P k) xs) k = (if P k then map_of xs k else None)"
  by (induction xs) auto

lemma map_of_filter_value:
  "distinct (map fst xs) \<Longrightarrow>
   map_of (filter (\<lambda>(k, v). Q v) xs) k =
     (case map_of xs k of None \<Rightarrow> None | Some v \<Rightarrow> if Q v then Some v else None)"
  by (induction xs) (auto split: option.splits simp: map_of_eq_None_iff image_iff)

lemma distinct_filter_keys: "distinct (map fst xs) \<Longrightarrow> distinct (map fst (filter P xs))"
  by (simp add: distinct_map_filter)

subsection \<open>Reading the files\<close>

lemma distinct_read_config: "read_config fs p = Inr c \<Longrightarrow> distinct (map fst c)"
  by (auto simp: read_config_def distinct_dict_of_items split: config_file.splits yaml_node.splits)

lemma map_of_select_fields:
  "map_of (select_fields fn c) f = (if f \<in> set fn then map_of c f else None)"
  unfolding select_fields_def by (rule map_of_filter_key)

lemma distinct_select_fields: "distinct (map fst c) \<Longrightarrow> distinct (map fst (select_fields fn c))"
  unfolding select_fields_def by (rule distinct_filter_keys)

lemma map_of_merge_step:
  assumes "read_config fs p = Inr c"
  shows "map_of (dict_update acc (select_fields fn c)) f =
           (if f \<in> set fn \<and> file_value fs p f \<noteq> None then file_value fs p f else map_of acc f)"
proof -
  have d: "distinct (map fst (select_fields fn c))"
    using assms by (simp add: distinct_read_config distinct_select_fields)
  show ?thesis
    using assms
    by (auto simp: map_of_dict_update map_of_rev_distinct [OF d] map_of_select_fields
          file_value_def map_add_def split: option.splits)
qed

lemma read_files_Cons_Inr:
  assumes "read_files fs fn (p # ps) acc = (tr, Inr s)"
  obtains c tr' where "read_config fs p = Inr c"
    and "read_files fs fn ps (dict_update acc (select_fields fn c)) = (tr', Inr s)"
  using assms by (auto simp: merge_content_def split: sum.splits prod.splits)

lemma read_files_untouched:
  "read_files fs fn ps acc = (tr, Inr s) \<Longrightarrow>
   f \<notin> set fn \<or> (\<forall>p \<in> set ps. file_value fs p f = None) \<Longrightarrow>
   map_of s f = map_of acc f"
proof (induction ps arbitrary: acc tr)
  case Nil
  then show ?case by simp
next
  case (Cons p ps)
  from Cons.prems(1) obtain c tr' where c: "read_config fs p = Inr c"
    and r: "read_files fs fn ps (dict_update acc (select_fields fn c)) = (tr', Inr s)"
    by (rule read_files_Cons_Inr)
  have "map_of s f = map_of (dict_update acc (select_fields fn c)) f"
    using Cons.IH [OF r] Cons.prems(2) by auto
  also have "\<dots> = map_of acc f"
    using Cons.prems(2) by (auto simp: map_of_merge_step [OF c])
  finally show ?case .
qed

lemma read_files_last_write:
  "read_files fs fn (ps1 @ p # ps2) acc = (tr, Inr s) \<Longrightarrow>
   f \<in> set fn \<Longrightarrow> file_value fs p f = Some v \<Longrightarrow>
   \<forall>q \<in> set ps2. file_value fs q f = None \<Longrightarrow>
   map_of s f = Some v"
proof (induction ps1 arbitrary: acc tr)
  case Nil
  from Nil(1) have "read_files fs fn (p # ps2) acc = (tr, Inr s)" by simp
  then obtain c tr' where c: "read_config fs p = Inr c"
    and r: "read_files fs fn ps2 (dict_update acc (select_fields fn c)) = (tr', Inr s)"
    by (rule read_files_Cons_Inr)
  have "map_of s f = map_of (dict_update acc (select_fields fn c)) f"
    using read_files_untouched [OF r] Nil(4) by blast
  then show ?case using Nil(2,3) by (simp add: map_of_merge_step [OF c])
next
  case (Cons q ps1)
  from Cons.prems(1) have "read_files fs fn (q # (ps1 @ p # ps2)) acc = (tr, Inr s)" by simp
  then obtain c tr' where
    r: "read_files fs fn (ps1 @ p # ps2) (dict_update acc (select_fields fn c)) = (tr', Inr s)"
    by (rule read_files_Cons_Inr)
  show ?case by (rule Cons.IH [OF r Cons.prems(2-4)])
qed

lemma read_files_source:
  "read_files fs fn ps acc = (tr, Inr s) \<Longrightarrow> map_of s f \<noteq> None \<Longrightarrow>
   map_of acc f \<noteq> None \<or> (f \<in> set fn \<and> (\<exists>p \<in> set ps. file_value fs p f \<noteq> None))"
  using read_files_untouched by metis

lemma read_files_total:
  "\<forall>p \<in> set ps. \<exists>c. read_config fs p = Inr c \<Longrightarrow> \<exists>tr s. read_files fs fn ps acc = (tr, Inr s)"
proof (induction ps arbitrary: acc)
  case Nil
  then show ?case by simp
next
  case (Cons p ps)
  then obtain c where c: "read_config fs p = Inr c" by auto
  from Cons obtain tr s where
    "read_files fs fn ps (dict_update acc (select_fields fn c)) = (tr, Inr s)" by fastforce
  then show ?case using c by (simp add: merge_content_def)
qed

subsection \<open>Conversion, construction and the whole of load\<close>

lemma convert_loop_keys:
  "convert_loop ctor tfs s = Inr s' \<Longrightarrow> keys s' = keys s"
proof (induction tfs arbitrary: s)
  case Nil
  then show ?case by simp
next
  case (Cons a tfs)
  obtain f t where a: "a = (f, t)" by (cases a)
  show ?case
  proof (cases "map_of s f")
    case None
    with Cons.prems a show ?thesis by simp
  next
    case (Some v)
    then have mem: "f \<in> set (map fst s)"
      by (metis map_of_eq_None_iff option.distinct(1) set_map)
    show ?thesis
    proof (cases "v = PyNone")
      case True
      with Cons a Some show ?thesis by simp
    next
      case False
      with Cons.prems a Some obtain w where w: "ctor t v = Inr w"
        and r: "convert_loop ctor tfs (AList.update f w s) = Inr s'"
        by (auto split: sum.splits)
      have "keys s' = keys (AList.update f w s)" by (rule Cons.IH [OF r])
      also have "\<dots> = keys s" using mem by (simp add: keys_def update_keys)
      finally show ?thesis .
    qed
  qed
qed

lemma convert_loop_value:
  "convert_loop ctor tfs s = Inr s' \<Longrightarrow> distinct (map fst tfs) \<Longrightarrow>
   map_of s f = Some v \<Longrightarrow>
   \<exists>w. (case map_of tfs f of
          None \<Rightarrow> Inr v
        | Some t \<Rightarrow> if v \<noteq> PyNone then ctor t v else Inr v) = Inr w \<and> map_of s' f = Some w"
proof (induction tfs arbitrary: s v)
  case Nil
  then show ?case by simp
next
  case (Cons a tfs)
  obtain g t where a: "a = (g, t)" by (cases a)
  from Cons.prems(2) a have dist: "distinct (map fst tfs)" and g: "g \<notin> fst ` set tfs" by auto
  from g have gNone: "map_of tfs g = None" by (simp add: map_of_eq_None_iff)
  show ?case
  proof (cases "map_of s g")
    case None
    with Cons.prems a show ?thesis by simp
  next
    case (Some u)
    show ?thesis
    proof (cases "u = PyNone")
      case True
      with Cons.prems(1) a Some have r: "convert_loop ctor tfs s = Inr s'" by simp
      from Cons.IH [OF r dist Cons.prems(3)] show ?thesis
        using a True Some Cons.prems(3) gNone by (cases "f = g") auto
    next
      case False
      with Cons.prems(1) a Some obtain w where w: "ctor t u = Inr w"
        and r: "convert_loop ctor tfs (AList.update g w s) = Inr s'"
        by (auto split: sum.splits)
      show ?thesis
      proof (cases "f = g")
        case True
        have "map_of (AList.update g w s) f = Some w" using True by (simp add: update_conv')
        from Cons.IH [OF r dist this] have "map_of s' f = Some w"
          using True gNone by simp
        then show ?thesis using True a Some Cons.prems(3) False w by simp
      next
        case False
        have "map_of (AList.update g w s) f = Some v"
          using False Cons.prems(3) by (simp add: update_conv')
        from Cons.IH [OF r dist this] show ?thesis using False a by simp
      qed
    qed
  qed
qed

lemma distinct_get_type_hints: "distinct (map fst (get_type_hints cls))"
  by (simp add: get_type_hints_def distinct_dict_of_items)

lemma map_of_filter_pair:
  "distinct (map fst xs) \<Longrightarrow>
   map_of (filter (\<lambda>(k, v). P k v) xs) k =
     (case map_of xs k of None \<Rightarrow> None | Some v \<Rightarrow> if P k v then Some v else None)"
  by (induction xs) (auto split: option.splits simp: map_of_eq_None_iff image_iff)

lemma map_of_time_field_types:
  "map_of (time_field_types cls s) f =
     (case map_of (get_type_hints cls) f of
        None \<Rightarrow> None
      | Some t \<Rightarrow> if f \<in> set (keys s) \<and> t \<in> set TIME_TYPES then Some t else None)"
  unfolding time_field_types_def
  by (rule map_of_filter_pair [OF distinct_get_type_hints])

lemma convert_to_time_keys: "convert_to_time cls ctor s = Inr s' \<Longrightarrow> keys s' = keys s"
  unfolding convert_to_time_def by (rule convert_loop_keys)

lemma convert_to_time_value:
  assumes "convert_to_time cls ctor s = Inr s'" and "map_of s f = Some v"
  shows "\<exists>w. coerce cls ctor f v = Inr w \<and> map_of s' f = Some w"
proof -
  have d: "distinct (map fst (time_field_types cls s))"
    unfolding time_field_types_def by (simp add: distinct_filter_keys distinct_get_type_hints)
  have k: "f \<in> set (keys s)"
    using assms(2) by (metis keys_def map_of_eq_None_iff option.distinct(1) set_map)
  from convert_loop_value [OF assms(1) [unfolded convert_to_time_def] d assms(2)]
  show ?thesis
    using k by (auto simp: coerce_def map_of_time_field_types split: option.splits if_splits)
qed

lemma convert_to_time_absent:
  assumes "convert_to_time cls ctor s = Inr s'" and "map_of s f = None"
  shows "map_of s' f = None"
  using convert_to_time_keys [OF assms(1)] assms(2)
  by (simp add: keys_def map_of_eq_None_iff) (metis set_map)

lemma map_of_tabulate:
  "map_of (map (\<lambda>f. (f, g f)) names) f = (if f \<in> set names then Some (g f) else None)"
  by (induction names) auto

lemma construct_Inr:
  assumes "construct cls s = Inr inst"
  shows "keys inst = keys (get_type_hints cls)"
    and "set (keys s) \<subseteq> set (keys (get_type_hints cls))"
    and "\<forall>f \<in> set (keys (get_type_hints cls)). f \<in> set (keys s) \<or> f \<in> set (keys (defaults cls))"
    and "map_of inst f = (if f \<in> set (keys (get_type_hints cls)) then Some (field_value cls s f) else None)"
proof -
  from assms have inst: "inst = map (\<lambda>f. (f, field_value cls s f)) (keys (get_type_hints cls))"
    by (auto simp: construct_def Let_def split: if_splits)
  show "keys inst = keys (get_type_hints cls)"
    unfolding inst by (simp add: keys_def comp_def)
  show "set (keys s) \<subseteq> set (keys (get_type_hints cls))"
    using assms by (auto simp: construct_def Let_def split: if_splits)
  show "\<forall>f \<in> set (keys (get_type_hints cls)). f \<in> set (keys s) \<or> f \<in> set (keys (defaults cls))"
    using assms by (auto simp: construct_def Let_def split: if_splits)
  show "map_of inst f = (if f \<in> set (keys (get_type_hints cls)) then Some (field_value cls s f) else None)"
    unfolding inst by (rule map_of_tabulate)
qed

lemma load_Inr:
  assumes "load cls ctor fs fps params = (tr, Inr inst)"
  obtains m m' where "is_dataclass cls"
    and "merge_sources cls fs fps params = (tr, Inr m)"
    and "convert_to_time cls ctor m = Inr m'"
    and "construct cls m' = Inr inst"
  using assms by (auto simp: load_def split: if_splits prod.splits sum.splits)

lemma files_part:
  "(if truthy fps then read_files fs fn (process_filepaths fps) [] else ([], Inr [])) =
   read_files fs fn (paths_read fps) []"
  by (simp add: paths_read_def)

lemma merge_sources_Inr:
  assumes "merge_sources cls fs fps params = (tr, Inr m)"
  obtains acc where "read_files fs (keys (get_type_hints cls)) (paths_read fps) [] = (tr, Inr acc)"
    and "m = dict_update acc (overrides params)"
  using assms unfolding merge_sources_def Let_def files_part
  by (auto split: prod.splits sum.splits)

lemma map_of_overrides:
  "distinct (map fst params) \<Longrightarrow>
   map_of (overrides params) f =
     (case map_of params f of None \<Rightarrow> None | Some v \<Rightarrow> if v \<noteq> PyNone then Some v else None)"
  unfolding overrides_def by (rule map_of_filter_value)

lemma map_of_apply_overrides:
  assumes "distinct (map fst params)"
  shows "map_of (dict_update acc (overrides params)) f =
     (case map_of params f of
        None \<Rightarrow> map_of acc f
      | Some v \<Rightarrow> if v \<noteq> PyNone then Some v else map_of acc f)"
proof -
  have d: "distinct (map fst (overrides params))"
    unfolding overrides_def using assms by (rule distinct_filter_keys)
  show ?thesis
    by (auto simp: map_of_dict_update map_of_rev_distinct [OF d] map_of_overrides [OF assms]
          map_add_def split: option.splits)
qed

lemma no_override_keeps:
  assumes "f \<notin> set (keys (overrides params))"
  shows "map_of (dict_update acc (overrides params)) f = map_of acc f"
proof -
  have "map_of (rev (overrides params)) f = None"
    using assms by (simp add: map_of_eq_None_iff keys_def)
  then show ?thesis by (simp add: map_of_dict_update map_add_def)
qed

lemma in_keys_iff: "f \<in> set (keys d) \<longleftrightarrow> map_of d f \<noteq> None"
  by (simp add: keys_def map_of_eq_None_iff)

lemma instance_value:
  assumes "construct cls m' = Inr inst" and "map_of m' f = Some w"
  shows "map_of inst f = Some w"
proof -
  have "f \<in> set (keys m')" using assms(2) by (simp add: in_keys_iff)
  then have "f \<in> set (keys (get_type_hints cls))"
    using construct_Inr(2) [OF assms(1)] by blast
  then show ?thesis
    using construct_Inr(4) [OF assms(1), of f] assms(2) by (simp add: field_value_def)
qed

lemma construct_missing:
  assumes "f \<in> set (keys (get_type_hints cls))" and "f \<notin> set (keys (defaults cls))"
    and "f \<notin> set (keys s)"
  shows "construct cls s = Inl TypeError"
  using assms by (auto simp: construct_def Let_def)

lemma construct_unknown:
  assumes "k \<in> set (keys s)" and "k \<notin> set (keys (get_type_hints cls))"
  shows "construct cls s = Inl TypeError"
  using assms by (auto simp: construct_def Let_def)

lemma load_reached:
  assumes "is_dataclass cls" and "merge_sources cls fs filepaths params = (tr, Inr m)"
    and "convert_to_time cls ctor m = Inr m'"
  shows "load cls ctor fs filepaths params =
           (case construct cls m' of
              Inl e \<Rightarrow> (tr, Inl (if e = TypeError then MissingParamError else e))
            | Inr inst \<Rightarrow> (tr, Inr inst))"
  using assms by (simp add: load_def)

lemma load_never_Inr:
  assumes "\<And>tr m m'. merge_sources cls fs filepaths params = (tr, Inr m) \<Longrightarrow>
             convert_to_time cls ctor m = Inr m' \<Longrightarrow> construct cls m' = Inl TypeError"
  shows "snd (load cls ctor fs filepaths params) \<noteq> Inr inst"
proof
  assume "snd (load cls ctor fs filepaths params) = Inr inst"
  then obtain tr where "load cls ctor fs filepaths params = (tr, Inr inst)"
    by (cases "load cls ctor fs filepaths params") auto
  then obtain m m' where "merge_sources cls fs filepaths params = (tr, Inr m)"
    "convert_to_time cls ctor m = Inr m'" "construct cls m' = Inr inst"
    by (rule load_Inr)
  with assms show False by fastforce
qed

lemma merge_sources_unsupplied:
  assumes "merge_sources cls fs filepaths params = (tr, Inr m)"
    and "\<forall>p \<in> set (paths_read filepaths). file_value fs p f = None"
    and "f \<notin> set (keys (overrides params))"
  shows "map_of m f = None"
proof -
  from assms(1) obtain acc where
    r: "read_files fs (keys (get_type_hints cls)) (paths_read filepaths) [] = (tr, Inr acc)"
    and u: "m = dict_update acc (overrides params)"
    by (rule merge_sources_Inr)
  have "map_of acc f = map_of [] f"
    using read_files_untouched [OF r] assms(2) by blast
  then show ?thesis unfolding u by (simp add: no_override_keeps [OF assms(3)])
qed

lemma filter_key_update:
  "filter (\<lambda>(k, v). P k) (AList.update k v d) =
     (if P k then AList.update k v (filter (\<lambda>(k, v). P k) d) else filter (\<lambda>(k, v). P k) d)"
  by (induction d) auto

lemma dict_update_Cons:
  "dict_update d ((k, v) # xs) = dict_update (AList.update k v d) xs"
  by (simp add: dict_update_def)

lemma filter_key_dict_update:
  "filter (\<lambda>(k, v). P k) (dict_update d xs) =
     dict_update (filter (\<lambda>(k, v). P k) d) (filter (\<lambda>(k, v). P k) xs)"
proof (induction xs arbitrary: d)
  case Nil
  show ?case by (simp add: dict_update_def)
next
  case (Cons x xs)
  obtain k v where x: "x = (k, v)" by (cases x)
  let ?F = "filter (\<lambda>(k, v). P k)"
  have l: "?F (dict_update d (x # xs)) = dict_update (?F (AList.update k v d)) (?F xs)"
    unfolding x dict_update_Cons by (rule Cons.IH)
  show ?case
  proof (cases "P k")
    case True
    have "?F (x # xs) = x # ?F xs" using True x by simp
    then have "dict_update (?F d) (?F (x # xs)) = dict_update (AList.update k v (?F d)) (?F xs)"
      by (simp only: x dict_update_Cons)
    moreover have "?F (AList.update k v d) = AList.update k v (?F d)"
      using True by (simp only: filter_key_update if_True)
    ultimately show ?thesis using l by simp
  next
    case False
    have "?F (x # xs) = ?F xs" using False x by simp
    then have "dict_update (?F d) (?F (x # xs)) = dict_update (?F d) (?F xs)"
      by simp
    moreover have "?F (AList.update k v d) = ?F d"
      using False by (simp only: filter_key_update if_False)
    ultimately show ?thesis using l by simp
  qed
qed

lemma select_fields_drop:
  "select_fields fn (dict_of_items (filter (\<lambda>(k, v). k \<in> set fn) kvs)) =
   select_fields fn (dict_of_items kvs)"
  by (simp add: select_fields_def dict_of_items_def filter_key_dict_update)

lemma read_config_drop:
  "read_config (drop_unknown_keys cls fs) p =
     (case fs (path_str p) of
        Yaml (MappingNode kvs) \<Rightarrow>
          Inr (dict_of_items (filter (\<lambda>(k, v). k \<in> set (keys (get_type_hints cls))) kvs))
      | other \<Rightarrow> read_config fs p)"
  by (simp add: read_config_def drop_unknown_keys_def split: config_file.splits yaml_node.splits)

lemma read_files_drop:
  "read_files (drop_unknown_keys cls fs) (keys (get_type_hints cls)) ps acc =
   read_files fs (keys (get_type_hints cls)) ps acc"
proof (induction ps arbitrary: acc)
  case Nil
  show ?case by simp
next
  case (Cons p ps)
  show ?case
  proof (cases "fs (path_str p)")
    case NoFile
    then show ?thesis by (simp add: read_config_drop) (simp add: read_config_def)
  next
    case BadYaml
    then show ?thesis by (simp add: read_config_drop) (simp add: read_config_def)
  next
    case (Yaml node)
    show ?thesis
    proof (cases node)
      case OtherNode
      with Yaml show ?thesis by (simp add: read_config_drop) (simp add: read_config_def)
    next
      case (MappingNode kvs)
      have a: "read_config (drop_unknown_keys cls fs) p =
                 Inr (dict_of_items (filter (\<lambda>(k, v). k \<in> set (keys (get_type_hints cls))) kvs))"
        using Yaml MappingNode by (simp add: read_config_drop)
      have b: "read_config fs p = Inr (dict_of_items kvs)"
        using Yaml MappingNode by (simp add: read_config_def)
      show ?thesis
        by (simp add: a b select_fields_drop Cons.IH)
    qed
  qed
qed

lemma merge_sources_drop:
  "merge_sources cls (drop_unknown_keys cls fs) filepaths params =
   merge_sources cls fs filepaths params"
  by (simp add: merge_sources_def Let_def read_files_drop)

lemma file_value_Some:
  assumes "file_value fs p k = Some v"
  obtains c where "read_config fs p = Inr c" and "map_of c k = Some v"
  using assms by (auto simp: file_value_def split: sum.splits)


subsection \<open>Exceptions of the stages, and collisions between files\<close>

lemma read_files_Cons_ok:
  assumes "read_config fs q = Inr c"
  shows "read_files fs fn (q # ps) acc =
           (Opened (path_str q) # fst (merge_content acc (select_fields fn c)) @
              fst (read_files fs fn ps (dict_update acc (select_fields fn c))),
            snd (read_files fs fn ps (dict_update acc (select_fields fn c))))"
  by (simp add: assms merge_content_def split: prod.splits)

lemma read_files_first_error:
  "\<forall>q \<in> set ps1. \<exists>c. read_config fs q = Inr c \<Longrightarrow> read_config fs p = Inl e \<Longrightarrow>
   snd (read_files fs fn (ps1 @ p # ps2) acc) = Inl e"
proof (induction ps1 arbitrary: acc)
  case Nil
  then show ?case by simp
next
  case (Cons q ps1)
  then obtain c where c: "read_config fs q = Inr c" by auto
  have "snd (read_files fs fn (ps1 @ p # ps2) (dict_update acc (select_fields fn c))) = Inl e"
    using Cons by simp
  then show ?case by (simp add: read_files_Cons_ok [OF c] del: read_files.simps)
qed

lemma load_file_error:
  assumes "is_dataclass cls"
    and "paths_read filepaths = ps1 @ p # ps2"
    and "\<forall>q \<in> set ps1. \<exists>c. read_config fs q = Inr c"
    and "read_config fs p = Inl e"
  shows "snd (load cls ctor fs filepaths params) = Inl e"
proof -
  have "snd (read_files fs (keys (get_type_hints cls)) (paths_read filepaths) []) = Inl e"
    unfolding assms(2) by (rule read_files_first_error [OF assms(3,4)])
  then have "snd (merge_sources cls fs filepaths params) = Inl e"
    unfolding merge_sources_def Let_def files_part by (auto split: prod.splits sum.splits)
  then show ?thesis
    using assms(1) by (auto simp: load_def split: prod.splits sum.splits)
qed

lemma load_conversion_error:
  assumes "is_dataclass cls"
    and "merge_sources cls fs filepaths params = (tr, Inr m)"
    and "convert_to_time cls ctor m = Inl e"
  shows "load cls ctor fs filepaths params = (tr, Inl e)"
  using assms by (simp add: load_def)

lemma read_files_append:
  "read_files fs fn (xs @ ys) acc =
     (case read_files fs fn xs acc of
        (t1, Inl e) \<Rightarrow> (t1, Inl e)
      | (t1, Inr a) \<Rightarrow> (case read_files fs fn ys a of (t2, r) \<Rightarrow> (t1 @ t2, r)))"
proof (induction xs arbitrary: acc)
  case Nil
  show ?case by (simp split: prod.splits)
next
  case (Cons x xs)
  show ?case
    by (simp add: Cons.IH split: sum.splits prod.splits)
qed

lemma read_files_keeps_keys:
  "read_files fs fn ps acc = (tr, Inr s) \<Longrightarrow> map_of acc k \<noteq> None \<Longrightarrow> map_of s k \<noteq> None"
proof (induction ps arbitrary: acc tr)
  case Nil
  then show ?case by simp
next
  case (Cons p ps)
  from Cons.prems(1) obtain c tr' where c: "read_config fs p = Inr c"
    and r: "read_files fs fn ps (dict_update acc (select_fields fn c)) = (tr', Inr s)"
    by (rule read_files_Cons_Inr)
  have "map_of (dict_update acc (select_fields fn c)) k \<noteq> None"
    using Cons.prems(2) by (simp add: map_of_merge_step [OF c])
  then show ?case by (rule Cons.IH [OF r])
qed

lemma read_files_holds_earlier:
  assumes "read_files fs fn ps acc = (tr, Inr s)"
    and "q \<in> set ps" and "file_value fs q k = Some u" and "k \<in> set fn"
  shows "map_of s k \<noteq> None"
proof -
  from assms(2) obtain xs ys where ps: "ps = xs @ q # ys" by (auto dest: split_list)
  from assms(1) obtain t1 a where a: "read_files fs fn xs acc = (t1, Inr a)"
    and b: "read_files fs fn (q # ys) a = (drop (length t1) tr, Inr s)"
    unfolding ps read_files_append by (auto split: prod.splits sum.splits)
  from b obtain c t' where c: "read_config fs q = Inr c"
    and r: "read_files fs fn ys (dict_update a (select_fields fn c)) = (t', Inr s)"
    by (rule read_files_Cons_Inr)
  have "map_of (dict_update a (select_fields fn c)) k \<noteq> None"
    using assms(3,4) by (simp add: map_of_merge_step [OF c])
  then show ?thesis by (rule read_files_keeps_keys [OF r])
qed

lemma read_files_collision:
  assumes "file_value fs p k = Some v"
    and "k \<in> set field_names"
    and "k \<in> set (keys acc)"
  shows "\<exists>acc'. map_of acc' k = Some v \<and>
            read_files fs field_names (p # ps) acc =
              (Opened (path_str p) # Warning # fst (read_files fs field_names ps acc'),
               snd (read_files fs field_names ps acc'))"
proof -
  from assms(1) obtain c where c: "read_config fs p = Inr c" and v: "map_of c k = Some v"
    by (rule file_value_Some)
  let ?acc = "dict_update acc (select_fields field_names c)"
  have "map_of (select_fields field_names c) k = Some v"
    using assms(2) v by (simp add: map_of_select_fields)
  then have "k \<in> set (keys (select_fields field_names c))" by (simp add: in_keys_iff)
  with assms(3) have w: "merge_content acc (select_fields field_names c) = ([Warning], ?acc)"
    by (auto simp: merge_content_def)
  have a: "map_of ?acc k = Some v"
    using assms(1,2) by (simp add: map_of_merge_step [OF c])
  have "read_files fs field_names (p # ps) acc =
          (Opened (path_str p) # Warning # fst (read_files fs field_names ps ?acc),
           snd (read_files fs field_names ps ?acc))"
    by (simp add: c w split: prod.splits)
  with a show ?thesis by blast
qed

lemma merge_sources_collision:
  assumes "paths_read filepaths = ps1 @ p # ps2"
    and "\<forall>q \<in> set (paths_read filepaths). \<exists>c. read_config fs q = Inr c"
    and "k \<in> set (keys (get_type_hints cls))"
    and "q0 \<in> set ps1"
    and "file_value fs q0 k = Some u"
    and "file_value fs p k = Some v"
  shows "\<exists>tr1 tr2 m.
           merge_sources cls fs filepaths params =
             (tr1 @ Opened (path_str p) # Warning # tr2, Inr m) \<and>
           ((\<forall>q \<in> set ps2. file_value fs q k = None) \<longrightarrow>
              k \<notin> set (keys (overrides params)) \<longrightarrow> map_of m k = Some v)"
proof -
  let ?fn = "keys (get_type_hints cls)"
  from assms(1,2) have r1: "\<forall>q \<in> set ps1. \<exists>c. read_config fs q = Inr c"
    and r2: "\<forall>q \<in> set ps2. \<exists>c. read_config fs q = Inr c" by auto
  from read_files_total [OF r1] obtain tr1 a where
    a: "read_files fs ?fn ps1 [] = (tr1, Inr a)" by blast
  have "map_of a k \<noteq> None"
    by (rule read_files_holds_earlier [OF a assms(4,5,3)])
  then have ka: "k \<in> set (keys a)" by (simp add: in_keys_iff)
  from read_files_collision [OF assms(6,3) ka] obtain acc' where
    acc': "map_of acc' k = Some v"
    and step: "read_files fs ?fn (p # ps2) a =
                 (Opened (path_str p) # Warning # fst (read_files fs ?fn ps2 acc'),
                  snd (read_files fs ?fn ps2 acc'))"
    by blast
  from read_files_total [OF r2] obtain tr2 s where
    s: "read_files fs ?fn ps2 acc' = (tr2, Inr s)" by blast
  have b: "read_files fs ?fn (p # ps2) a = (Opened (path_str p) # Warning # tr2, Inr s)"
    unfolding step by (simp add: s)
  have all: "read_files fs ?fn (paths_read filepaths) [] =
               (tr1 @ Opened (path_str p) # Warning # tr2, Inr s)"
    unfolding assms(1) by (simp add: read_files_append a b del: read_files.simps)
  then have m: "merge_sources cls fs filepaths params =
                  (tr1 @ Opened (path_str p) # Warning # tr2,
                   Inr (dict_update s (overrides params)))"
    unfolding merge_sources_def Let_def files_part by simp
  have "map_of (dict_update s (overrides params)) k = Some v"
    if "\<forall>q \<in> set ps2. file_value fs q k = None" and "k \<notin> set (keys (overrides params))"
  proof -
    have "map_of s k = map_of acc' k" using read_files_untouched [OF s] that(1) by blast
    then show ?thesis using acc' by (simp add: no_override_keeps [OF that(2)])
  qed
  with m show ?thesis by blast
qed

lemma construct_Inl: "construct cls s = Inl e \<Longrightarrow> e = TypeError"
  by (auto simp: construct_def Let_def split: if_splits)

lemma first_unreadable:
  "(\<forall>q \<in> set ps. \<exists>c. read_config fs q = Inr c) \<or>
   (\<exists>ps1 p ps2 e. ps = ps1 @ p # ps2 \<and> (\<forall>q \<in> set ps1. \<exists>c. read_config fs q = Inr c) \<and>
      read_config fs p = Inl e)"
proof (induction ps)
  case Nil
  show ?case by simp
next
  case (Cons a ps)
  show ?case
  proof (cases "read_config fs a")
    case (Inl e)
    then have "a # ps = [] @ a # ps \<and> (\<forall>q \<in> set []. \<exists>c. read_config fs q = Inr c) \<and>
      read_config fs a = Inl e" by simp
    then show ?thesis by blast
  next
    case (Inr c)
    from Cons show ?thesis
    proof
      assume "\<forall>q \<in> set ps. \<exists>c. read_config fs q = Inr c"
      with Inr show ?thesis by auto
    next
      assume "\<exists>ps1 p ps2 e. ps = ps1 @ p # ps2 \<and>
        (\<forall>q \<in> set ps1. \<exists>c. read_config fs q = Inr c) \<and> read_config fs p = Inl e"
      then obtain ps1 p ps2 e where "ps = ps1 @ p # ps2"
        "\<forall>q \<in> set ps1. \<exists>c. read_config fs q = Inr c" "read_config fs p = Inl e" by blast
      with Inr have "a # ps = (a # ps1) @ p # ps2 \<and>
        (\<forall>q \<in> set (a # ps1). \<exists>c. read_config fs q = Inr c) \<and> read_config fs p = Inl e"
        by simp
      then show ?thesis by blast
    qed
  qed
qed

lemma merge_sources_total:
  assumes "\<forall>q \<in> set (paths_read filepaths). \<exists>c. read_config fs q = Inr c"
  shows "\<exists>tr m. merge_sources cls fs filepaths params = (tr, Inr m)"
proof -
  from read_files_total [OF assms] obtain tr s where
    "read_files fs (keys (get_type_hints cls)) (paths_read filepaths) [] = (tr, Inr s)" by blast
  then show ?thesis unfolding merge_sources_def Let_def files_part by simp
qed

lemma load_stages:
  "(\<exists>tr m. merge_sources cls fs filepaths params = (tr, Inr m)) \<or>
   (\<exists>ps1 p ps2 e. paths_read filepaths = ps1 @ p # ps2 \<and>
      (\<forall>q \<in> set ps1. \<exists>c. read_config fs q = Inr c) \<and> read_config fs p = Inl e)"
  using first_unreadable [of "paths_read filepaths" fs] merge_sources_total [of filepaths fs cls params]
  by blast

lemma load_failure_cause:
  assumes "is_dataclass cls" and "merge_sources cls fs filepaths params = (tr, Inr m)"
    and "snd (load cls ctor fs filepaths params) = Inl e"
  shows "convert_to_time cls ctor m = Inl e \<or>
         (e = MissingParamError \<and>
          (\<exists>m'. convert_to_time cls ctor m = Inr m' \<and> construct cls m' = Inl TypeError))"
proof (cases "convert_to_time cls ctor m")
  case (Inl e')
  with assms show ?thesis by (simp add: load_def)
next
  case (Inr m')
  show ?thesis
  proof (cases "construct cls m'")
    case (Inl e')
    then have "e' = TypeError" by (rule construct_Inl)
    with assms Inr Inl show ?thesis by (simp add: load_def)
  next
    case inst: (Inr inst)
    with assms Inr show ?thesis by (simp add: load_def)
  qed
qed

section \<open>Properties of the loader\<close>

text \<open>
  Claim C1, as amended. When \<^verbatim>\<open>load\<close> returns an instance and the keyword
  arguments give the field \<open>f\<close> a value \<open>v\<close> that is not \<^verbatim>\<open>None\<close>, the instance
  holds \<open>v\<close> for \<open>f\<close>, passed through the constructor of the declared type when that
  type is time-like. This holds for every sequence of files, so for every ordering of
  them, and whatever the files say about \<open>f\<close>.
\<close>

theorem override_precedence:
  assumes "load cls ctor fs filepaths params = (tr, Inr inst)"
    and "distinct (map fst params)"
    and "map_of params f = Some v"
    and "v \<noteq> PyNone"
  shows "\<exists>w. coerce cls ctor f v = Inr w \<and> map_of inst f = Some w"
proof -
  from assms(1) obtain m m' where m: "merge_sources cls fs filepaths params = (tr, Inr m)"
    and c: "convert_to_time cls ctor m = Inr m'" and i: "construct cls m' = Inr inst"
    by (rule load_Inr)
  from m obtain acc where "m = dict_update acc (overrides params)"
    by (rule merge_sources_Inr)
  then have "map_of m f = Some v"
    using assms(3,4) by (simp add: map_of_apply_overrides [OF assms(2)])
  from convert_to_time_value [OF c this] obtain w
    where w: "coerce cls ctor f v = Inr w" "map_of m' f = Some w" by blast
  from instance_value [OF i w(2)] w(1) show ?thesis by blast
qed

text \<open>
  The amended C1 at a concrete call: \<^verbatim>\<open>config.yaml\<close> sets \<^verbatim>\<open>test_size\<close> to 0.2,
  the override sets it to 0.5, and the instance holds 0.5.
\<close>

theorem override_precedence_witness:
  "load PreparationSettings object_ctor example_fs (FOne (StrPath ''config.yaml''))
     ((''test_size'', PyFloat 5 (-1)) # io_paths) =
     ([Opened ''config.yaml''],
      Inr [(''target'', PyStr ''quality''), (''test_size'', PyFloat 5 (-1)),
           (''in_path'', PyPath ''data/winequality-red.csv''),
           (''out_train'', PyPath ''data/train.parquet''),
           (''out_test'', PyPath ''data/test.parquet'')]) \<and>
   file_value example_fs (StrPath ''config.yaml'') ''test_size'' = Some (PyFloat 2 (-1)) \<and>
   distinct (map fst ((''test_size'', PyFloat 5 (-1)) # io_paths)) \<and>
   map_of ((''test_size'', PyFloat 5 (-1)) # io_paths) ''test_size'' = Some (PyFloat 5 (-1)) \<and>
   coerce PreparationSettings object_ctor ''test_size'' (PyFloat 5 (-1)) = Inr (PyFloat 5 (-1)) \<and>
   map_of [(''target'', PyStr ''quality''), (''test_size'', PyFloat 5 (-1)),
           (''in_path'', PyPath ''data/winequality-red.csv''),
           (''out_train'', PyPath ''data/train.parquet''),
           (''out_test'', PyPath ''data/test.parquet'')] ''test_size'' = Some (PyFloat 5 (-1))"
proof -
  let ?params = "(''test_size'', PyFloat 5 (-1)) # io_paths"
  let ?inst = "[(''target'', PyStr ''quality''), (''test_size'', PyFloat 5 (-1)),
           (''in_path'', PyPath ''data/winequality-red.csv''),
           (''out_train'', PyPath ''data/train.parquet''),
           (''out_test'', PyPath ''data/test.parquet'')]"
  have l: "load PreparationSettings object_ctor example_fs (FOne (StrPath ''config.yaml'')) ?params =
     ([Opened ''config.yaml''], Inr ?inst)"
    by code_simp
  have fv: "file_value example_fs (StrPath ''config.yaml'') ''test_size'' = Some (PyFloat 2 (-1))"
    by code_simp
  have d: "distinct (map fst ?params)" by (simp add: io_paths_def)
  have m: "map_of ?params ''test_size'' = Some (PyFloat 5 (-1))" by simp
  have n: "PyFloat 5 (-1) \<noteq> PyNone" by simp
  have c: "coerce PreparationSettings object_ctor ''test_size'' (PyFloat 5 (-1)) = Inr (PyFloat 5 (-1))"
    by code_simp
  from override_precedence [OF l d m n] c
  have "map_of ?inst ''test_size'' = Some (PyFloat 5 (-1))" by auto
  with l fv d m c show ?thesis by blast
qed

text \<open>
  Claim C1 as stated fails for a time-like field: the override is the string
  \<^verbatim>\<open>2024-01-01\<close>, and the instance holds the \<^verbatim>\<open>Timestamp\<close> built from it, which
  is not the override value.
\<close>

theorem override_precedence_counterexample:
  "load EventSettings object_ctor example_fs (FOne (StrPath ''events.yaml''))
     [(''start'', PyStr ''2024-01-01'')] =
     ([Opened ''events.yaml''],
      Inr [(''name'', PyStr ''launch''), (''start'', PyTime Timestamp (PyStr ''2024-01-01''))]) \<and>
   file_value example_fs (StrPath ''events.yaml'') ''start'' = Some (PyStr ''2023-01-01'') \<and>
   map_of [(''name'', PyStr ''launch''), (''start'', PyTime Timestamp (PyStr ''2024-01-01''))] ''start''
     \<noteq> Some (PyStr ''2024-01-01'')"
  by code_simp

text \<open>
  Claim C2, as amended. When \<^verbatim>\<open>load\<close> is called with two files that both give the
  schema field \<open>f\<close> a value, the values differ, no keyword argument overrides \<open>f\<close>,
  and an instance is returned, then the instance holds for \<open>f\<close> the value of the
  second file, passed through the constructor of the declared type when that type is
  time-like and the value is not \<^verbatim>\<open>None\<close>.
\<close>

theorem last_write_wins:
  assumes "load cls ctor fs (FMany [p1, p2]) params = (tr, Inr inst)"
    and "f \<in> set (keys (get_type_hints cls))"
    and "file_value fs p1 f = Some v1"
    and "file_value fs p2 f = Some v2"
    and "v1 \<noteq> v2"
    and "f \<notin> set (keys (overrides params))"
  shows "\<exists>w. coerce cls ctor f v2 = Inr w \<and> map_of inst f = Some w"
proof -
  from assms(1) obtain m m' where m: "merge_sources cls fs (FMany [p1, p2]) params = (tr, Inr m)"
    and c: "convert_to_time cls ctor m = Inr m'" and i: "construct cls m' = Inr inst"
    by (rule load_Inr)
  from m obtain acc where
    r: "read_files fs (keys (get_type_hints cls)) (paths_read (FMany [p1, p2])) [] = (tr, Inr acc)"
    and u: "m = dict_update acc (overrides params)"
    by (rule merge_sources_Inr)
  from r have "read_files fs (keys (get_type_hints cls)) ([p1] @ p2 # []) [] = (tr, Inr acc)"
    by (simp add: paths_read_def)
  from read_files_last_write [OF this assms(2,4)] have "map_of acc f = Some v2" by simp
  then have "map_of m f = Some v2"
    unfolding u by (simp add: no_override_keeps [OF assms(6)])
  from convert_to_time_value [OF c this] obtain w
    where w: "coerce cls ctor f v2 = Inr w" "map_of m' f = Some w" by blast
  from instance_value [OF i w(2)] w(1) show ?thesis by blast
qed

text \<open>
  The amended C2 on the scenario of the specification: the first file sets
  \<^verbatim>\<open>test_size\<close> to 0.2, the second to 0.3; the instance holds 0.3 and one warning
  is logged.
\<close>

theorem last_write_wins_witness:
  "load PreparationSettings object_ctor example_fs
     (FMany [StrPath ''config.yaml'', StrPath ''extra.yaml'']) io_paths =
     ([Opened ''config.yaml'', Opened ''extra.yaml'', Warning],
      Inr [(''target'', PyStr ''quality''), (''test_size'', PyFloat 3 (-1)),
           (''in_path'', PyPath ''data/winequality-red.csv''),
           (''out_train'', PyPath ''data/train.parquet''),
           (''out_test'', PyPath ''data/test.parquet'')]) \<and>
   ''test_size'' \<in> set (keys (get_type_hints PreparationSettings)) \<and>
   file_value example_fs (StrPath ''config.yaml'') ''test_size'' = Some (PyFloat 2 (-1)) \<and>
   file_value example_fs (StrPath ''extra.yaml'') ''test_size'' = Some (PyFloat 3 (-1)) \<and>
   PyFloat 2 (-1) \<noteq> PyFloat 3 (-1) \<and>
   ''test_size'' \<notin> set (keys (overrides io_paths)) \<and>
   coerce PreparationSettings object_ctor ''test_size'' (PyFloat 3 (-1)) = Inr (PyFloat 3 (-1)) \<and>
   map_of [(''target'', PyStr ''quality''), (''test_size'', PyFloat 3 (-1)),
           (''in_path'', PyPath ''data/winequality-red.csv''),
           (''out_train'', PyPath ''data/train.parquet''),
           (''out_test'', PyPath ''data/test.parquet'')] ''test_size'' = Some (PyFloat 3 (-1))"
proof -
  let ?inst = "[(''target'', PyStr ''quality''), (''test_size'', PyFloat 3 (-1)),
           (''in_path'', PyPath ''data/winequality-red.csv''),
           (''out_train'', PyPath ''data/train.parquet''),
           (''out_test'', PyPath ''data/test.parquet'')]"
  have l: "load PreparationSettings object_ctor example_fs
     (FMany [StrPath ''config.yaml'', StrPath ''extra.yaml'']) io_paths =
     ([Opened ''config.yaml'', Opened ''extra.yaml'', Warning], Inr ?inst)"
    by code_simp
  have k: "''test_size'' \<in> set (keys (get_type_hints PreparationSettings))" by code_simp
  have f1: "file_value example_fs (StrPath ''config.yaml'') ''test_size'' = Some (PyFloat 2 (-1))"
    by code_simp
  have f2: "file_value example_fs (StrPath ''extra.yaml'') ''test_size'' = Some (PyFloat 3 (-1))"
    by code_simp
  have ne: "PyFloat 2 (-1) \<noteq> PyFloat 3 (-1)" by simp
  have no: "''test_size'' \<notin> set (keys (overrides io_paths))" by code_simp
  have c: "coerce PreparationSettings object_ctor ''test_size'' (PyFloat 3 (-1)) = Inr (PyFloat 3 (-1))"
    by code_simp
  from last_write_wins [OF l k f1 f2 ne no] c
  have "map_of ?inst ''test_size'' = Some (PyFloat 3 (-1))" by auto
  with l k f1 f2 ne no c show ?thesis by blast
qed

text \<open>
  Claim C2 as stated fails for a time-like field: the later file gives the string
  \<^verbatim>\<open>2024-06-01\<close>, and the instance holds the \<^verbatim>\<open>Timestamp\<close> built from it.
\<close>

theorem last_write_wins_counterexample:
  "load EventSettings object_ctor example_fs
     (FMany [StrPath ''events.yaml'', StrPath ''late.yaml'']) [] =
     ([Opened ''events.yaml'', Opened ''late.yaml'', Warning],
      Inr [(''name'', PyStr ''launch''), (''start'', PyTime Timestamp (PyStr ''2024-06-01''))]) \<and>
   file_value example_fs (StrPath ''events.yaml'') ''start'' = Some (PyStr ''2023-01-01'') \<and>
   file_value example_fs (StrPath ''late.yaml'') ''start'' = Some (PyStr ''2024-06-01'') \<and>
   map_of [(''name'', PyStr ''launch''), (''start'', PyTime Timestamp (PyStr ''2024-06-01''))] ''start''
     \<noteq> Some (PyStr ''2024-06-01'')"
  by code_simp

text \<open>
  Claim C3, as amended. Let the class be a dataclass, \<open>f\<close> one of its fields without
  a default, and let no file that is read and no non-null override give \<open>f\<close> a
  value. Then \<^verbatim>\<open>load\<close> returns no instance. When the files are read and merged and
  the conversion of the time-like fields raises nothing, \<^verbatim>\<open>load\<close> raises
  \<^verbatim>\<open>MissingParamError\<close>. Otherwise the exception propagates unchanged: when the
  conversion raises \<open>e\<close>, \<^verbatim>\<open>load\<close> raises \<open>e\<close>; when the first path that cannot be
  read as a mapping fails with \<open>e\<close>, \<^verbatim>\<open>load\<close> raises \<open>e\<close>. There is no other
  case: either the files are merged or there is such a first path.
\<close>

theorem missing_required_field:
  assumes "is_dataclass cls"
    and "f \<in> set (keys (get_type_hints cls))"
    and "f \<notin> set (keys (defaults cls))"
    and "\<forall>p \<in> set (paths_read filepaths). file_value fs p f = None"
    and "f \<notin> set (keys (overrides params))"
  shows "(\<forall>inst. snd (load cls ctor fs filepaths params) \<noteq> Inr inst) \<and>
         (\<forall>tr m m'. merge_sources cls fs filepaths params = (tr, Inr m) \<longrightarrow>
            convert_to_time cls ctor m = Inr m' \<longrightarrow>
            load cls ctor fs filepaths params = (tr, Inl MissingParamError)) \<and>
         (\<forall>tr m e. merge_sources cls fs filepaths params = (tr, Inr m) \<longrightarrow>
            convert_to_time cls ctor m = Inl e \<longrightarrow>
            load cls ctor fs filepaths params = (tr, Inl e)) \<and>
         (\<forall>ps1 p ps2 e. paths_read filepaths = ps1 @ p # ps2 \<longrightarrow>
            (\<forall>q \<in> set ps1. \<exists>c. read_config fs q = Inr c) \<longrightarrow>
            read_config fs p = Inl e \<longrightarrow>
            snd (load cls ctor fs filepaths params) = Inl e) \<and>
         ((\<exists>tr m. merge_sources cls fs filepaths params = (tr, Inr m)) \<or>
          (\<exists>ps1 p ps2 e. paths_read filepaths = ps1 @ p # ps2 \<and>
             (\<forall>q \<in> set ps1. \<exists>c. read_config fs q = Inr c) \<and> read_config fs p = Inl e))"
proof -
  have fail: "construct cls m' = Inl TypeError"
    if m: "merge_sources cls fs filepaths params = (tr, Inr m)"
      and c: "convert_to_time cls ctor m = Inr m'" for tr m m'
  proof -
    have "map_of m f = None" by (rule merge_sources_unsupplied [OF m assms(4,5)])
    then have "map_of m' f = None" by (rule convert_to_time_absent [OF c])
    then have "f \<notin> set (keys m')" by (simp add: in_keys_iff)
    then show ?thesis by (rule construct_missing [OF assms(2,3)])
  qed
  have a: "\<forall>inst. snd (load cls ctor fs filepaths params) \<noteq> Inr inst"
  proof
    fix inst show "snd (load cls ctor fs filepaths params) \<noteq> Inr inst"
      by (rule load_never_Inr) (rule fail)
  qed
  have b: "\<forall>tr m m'. merge_sources cls fs filepaths params = (tr, Inr m) \<longrightarrow>
            convert_to_time cls ctor m = Inr m' \<longrightarrow>
            load cls ctor fs filepaths params = (tr, Inl MissingParamError)"
  proof (intro allI impI)
    fix tr m m'
    assume m: "merge_sources cls fs filepaths params = (tr, Inr m)"
      and c: "convert_to_time cls ctor m = Inr m'"
    show "load cls ctor fs filepaths params = (tr, Inl MissingParamError)"
      using load_reached [OF assms(1) m c] fail [OF m c] by simp
  qed
  have c: "\<forall>tr m e. merge_sources cls fs filepaths params = (tr, Inr m) \<longrightarrow>
            convert_to_time cls ctor m = Inl e \<longrightarrow>
            load cls ctor fs filepaths params = (tr, Inl e)"
    using load_conversion_error [OF assms(1)] by blast
  have d: "\<forall>ps1 p ps2 e. paths_read filepaths = ps1 @ p # ps2 \<longrightarrow>
            (\<forall>q \<in> set ps1. \<exists>c. read_config fs q = Inr c) \<longrightarrow>
            read_config fs p = Inl e \<longrightarrow>
            snd (load cls ctor fs filepaths params) = Inl e"
    using load_file_error [OF assms(1)] by blast
  from a b c d load_stages [of cls fs filepaths params] show ?thesis by blast
qed

text \<open>
  The amended C3 on the scenario of the specification: no files, and the overrides
  leave \<^verbatim>\<open>target\<close> out.
\<close>

theorem missing_required_field_witness:
  "is_dataclass PreparationSettings \<and>
   ''target'' \<in> set (keys (get_type_hints PreparationSettings)) \<and>
   ''target'' \<notin> set (keys (defaults PreparationSettings)) \<and>
   paths_read FNone = [] \<and>
   ''target'' \<notin> set (keys (overrides io_paths)) \<and>
   merge_sources PreparationSettings example_fs FNone io_paths = ([], Inr io_paths) \<and>
   convert_to_time PreparationSettings object_ctor io_paths = Inr io_paths \<and>
   load PreparationSettings object_ctor example_fs FNone io_paths = ([], Inl MissingParamError)"
proof -
  have h1: "is_dataclass PreparationSettings" by (simp add: PreparationSettings_def)
  have h2: "''target'' \<in> set (keys (get_type_hints PreparationSettings))" by code_simp
  have h3: "''target'' \<notin> set (keys (defaults PreparationSettings))" by code_simp
  have p: "paths_read FNone = []" by (simp add: paths_read_def)
  then have h4: "\<forall>p \<in> set (paths_read FNone). file_value example_fs p ''target'' = None" by simp
  have h5: "''target'' \<notin> set (keys (overrides io_paths))" by code_simp
  have m: "merge_sources PreparationSettings example_fs FNone io_paths = ([], Inr io_paths)"
    by code_simp
  have c: "convert_to_time PreparationSettings object_ctor io_paths = Inr io_paths" by code_simp
  from missing_required_field [OF h1 h2 h3 h4 h5, of object_ctor] m c
  have "load PreparationSettings object_ctor example_fs FNone io_paths = ([], Inl MissingParamError)"
    by blast
  with h1 h2 h3 p h5 m c show ?thesis by blast
qed

text \<open>
  Claim C3 as stated fails when a listed file is an empty document: the file supplies
  nothing, \<^verbatim>\<open>target\<close> and \<^verbatim>\<open>test_size\<close> are supplied by nothing, and
  \<^verbatim>\<open>load\<close> raises the \<^verbatim>\<open>AttributeError\<close> of \<^verbatim>\<open>content.items()\<close>, not
  \<^verbatim>\<open>MissingParamError\<close>.
\<close>

theorem missing_required_field_counterexample:
  "is_dataclass PreparationSettings \<and>
   ''target'' \<in> set (keys (get_type_hints PreparationSettings)) \<and>
   ''target'' \<notin> set (keys (defaults PreparationSettings)) \<and>
   example_fs ''empty.yaml'' = Yaml OtherNode \<and>
   file_value example_fs (StrPath ''empty.yaml'') ''target'' = None \<and>
   ''target'' \<notin> set (keys (overrides io_paths)) \<and>
   load PreparationSettings object_ctor example_fs (FOne (StrPath ''empty.yaml'')) io_paths =
     ([Opened ''empty.yaml''], Inl AttributeError)"
  by code_simp

text \<open>
  Claim C4. Let \<open>m\<close> be the mapping after the files and the overrides are merged, and
  let the declared type \<open>t\<close> of \<open>f\<close> be time-like. If \<open>m\<close> holds a value \<open>v\<close> other
  than \<^verbatim>\<open>None\<close> for \<open>f\<close>, the returned instance holds for \<open>f\<close> the result of the
  constructor of \<open>t\<close> applied to \<open>v\<close>. The conversion adds no key: a key absent from
  \<open>m\<close> is absent after it.
\<close>

theorem time_coercion:
  assumes "load cls ctor fs filepaths params = (tr, Inr inst)"
    and "merge_sources cls fs filepaths params = (tr, Inr m)"
    and "map_of (get_type_hints cls) f = Some t"
    and "t \<in> set TIME_TYPES"
  shows "(\<forall>v. map_of m f = Some v \<longrightarrow> v \<noteq> PyNone \<longrightarrow>
            (\<exists>w. ctor t v = Inr w \<and> map_of inst f = Some w)) \<and>
         (\<forall>m' g. convert_to_time cls ctor m = Inr m' \<longrightarrow> map_of m g = None \<longrightarrow>
            map_of m' g = None)"
proof (intro conjI allI impI)
  fix v assume v: "map_of m f = Some v" "v \<noteq> PyNone"
  from assms(1) obtain m0 m' where m0: "merge_sources cls fs filepaths params = (tr, Inr m0)"
    and c: "convert_to_time cls ctor m0 = Inr m'" and i: "construct cls m' = Inr inst"
    by (rule load_Inr)
  from m0 assms(2) have "m0 = m" by simp
  with c have c': "convert_to_time cls ctor m = Inr m'" by simp
  from convert_to_time_value [OF c' v(1)] obtain w
    where w: "coerce cls ctor f v = Inr w" "map_of m' f = Some w" by blast
  from w(1) assms(3,4) v(2) have "ctor t v = Inr w" by (simp add: coerce_def)
  with instance_value [OF i w(2)] show "\<exists>w. ctor t v = Inr w \<and> map_of inst f = Some w" by blast
next
  fix m' g assume "convert_to_time cls ctor m = Inr m'" "map_of m g = None"
  then show "map_of m' g = None" by (rule convert_to_time_absent)
qed

text \<open>
  C4 at a concrete call: the file gives \<^verbatim>\<open>start\<close> as a string, the field is declared
  \<^verbatim>\<open>Timestamp\<close>, and the instance holds the \<^verbatim>\<open>Timestamp\<close> built from the string.
\<close>

theorem time_coercion_witness:
  "load EventSettings object_ctor example_fs (FOne (StrPath ''events.yaml'')) [] =
     ([Opened ''events.yaml''],
      Inr [(''name'', PyStr ''launch''), (''start'', PyTime Timestamp (PyStr ''2023-01-01''))]) \<and>
   merge_sources EventSettings example_fs (FOne (StrPath ''events.yaml'')) [] =
     ([Opened ''events.yaml''],
      Inr [(''name'', PyStr ''launch''), (''start'', PyStr ''2023-01-01'')]) \<and>
   map_of (get_type_hints EventSettings) ''start'' = Some Timestamp \<and>
   Timestamp \<in> set TIME_TYPES \<and>
   object_ctor Timestamp (PyStr ''2023-01-01'') = Inr (PyTime Timestamp (PyStr ''2023-01-01'')) \<and>
   map_of [(''name'', PyStr ''launch''), (''start'', PyTime Timestamp (PyStr ''2023-01-01''))] ''start''
     = Some (PyTime Timestamp (PyStr ''2023-01-01''))"
proof -
  let ?m = "[(''name'', PyStr ''launch''), (''start'', PyStr ''2023-01-01'')]"
  let ?inst = "[(''name'', PyStr ''launch''), (''start'', PyTime Timestamp (PyStr ''2023-01-01''))]"
  have l: "load EventSettings object_ctor example_fs (FOne (StrPath ''events.yaml'')) [] =
     ([Opened ''events.yaml''], Inr ?inst)" by code_simp
  have m: "merge_sources EventSettings example_fs (FOne (StrPath ''events.yaml'')) [] =
     ([Opened ''events.yaml''], Inr ?m)" by code_simp
  have t: "map_of (get_type_hints EventSettings) ''start'' = Some Timestamp" by code_simp
  have tt: "Timestamp \<in> set TIME_TYPES" by code_simp
  have v: "map_of ?m ''start'' = Some (PyStr ''2023-01-01'')" by simp
  have o: "object_ctor Timestamp (PyStr ''2023-01-01'') = Inr (PyTime Timestamp (PyStr ''2023-01-01''))"
    by (simp add: object_ctor_def)
  from time_coercion [OF l m t tt] v o
  have "map_of ?inst ''start'' = Some (PyTime Timestamp (PyStr ''2023-01-01''))" by auto
  with l m t tt o show ?thesis by blast
qed

text \<open>
  Claim C5. The keys of a config file that are not fields of the schema have no
  effect: \<^verbatim>\<open>load\<close> gives the same trace and the same result, instance or
  exception, as on the file system whose documents have lost those keys. And an
  instance that \<^verbatim>\<open>load\<close> returns has no attribute that is not a field.
\<close>

theorem unknown_file_keys_ignored:
  "load cls ctor (drop_unknown_keys cls fs) filepaths params = load cls ctor fs filepaths params \<and>
   (\<forall>tr inst k. load cls ctor fs filepaths params = (tr, Inr inst) \<longrightarrow>
      k \<notin> set (keys (get_type_hints cls)) \<longrightarrow> k \<notin> set (keys inst))"
proof
  show "load cls ctor (drop_unknown_keys cls fs) filepaths params = load cls ctor fs filepaths params"
    by (simp add: load_def merge_sources_drop)
next
  show "\<forall>tr inst k. load cls ctor fs filepaths params = (tr, Inr inst) \<longrightarrow>
      k \<notin> set (keys (get_type_hints cls)) \<longrightarrow> k \<notin> set (keys inst)"
  proof (intro allI impI)
    fix tr inst k
    assume l: "load cls ctor fs filepaths params = (tr, Inr inst)"
      and k: "k \<notin> set (keys (get_type_hints cls))"
    from l obtain m' where "construct cls m' = Inr inst" by (rule load_Inr)
    then have "keys inst = keys (get_type_hints cls)" by (rule construct_Inr(1))
    with k show "k \<notin> set (keys inst)" by simp
  qed
qed

text \<open>
  C5 at a concrete call: \<^verbatim>\<open>config.yaml\<close> has the key \<^verbatim>\<open>comment\<close>, which is no
  field; the call succeeds, as it does without the key, and the instance has no
  \<^verbatim>\<open>comment\<close>.
\<close>

theorem unknown_file_keys_ignored_witness:
  "file_value example_fs (StrPath ''config.yaml'') ''comment'' = Some (PyStr ''red wine'') \<and>
   ''comment'' \<notin> set (keys (get_type_hints PreparationSettings)) \<and>
   file_value (drop_unknown_keys PreparationSettings example_fs) (StrPath ''config.yaml'') ''comment''
     = None \<and>
   load PreparationSettings object_ctor example_fs (FOne (StrPath ''config.yaml'')) io_paths =
     ([Opened ''config.yaml''],
      Inr [(''target'', PyStr ''quality''), (''test_size'', PyFloat 2 (-1)),
           (''in_path'', PyPath ''data/winequality-red.csv''),
           (''out_train'', PyPath ''data/train.parquet''),
           (''out_test'', PyPath ''data/test.parquet'')]) \<and>
   load PreparationSettings object_ctor (drop_unknown_keys PreparationSettings example_fs)
       (FOne (StrPath ''config.yaml'')) io_paths =
     load PreparationSettings object_ctor example_fs (FOne (StrPath ''config.yaml'')) io_paths \<and>
   ''comment'' \<notin> set (keys
       [(''target'', PyStr ''quality''), (''test_size'', PyFloat 2 (-1)),
        (''in_path'', PyPath ''data/winequality-red.csv''),
        (''out_train'', PyPath ''data/train.parquet''),
        (''out_test'', PyPath ''data/test.parquet'')])"
proof -
  let ?inst = "[(''target'', PyStr ''quality''), (''test_size'', PyFloat 2 (-1)),
        (''in_path'', PyPath ''data/winequality-red.csv''),
        (''out_train'', PyPath ''data/train.parquet''),
        (''out_test'', PyPath ''data/test.parquet'')]"
  have f: "file_value example_fs (StrPath ''config.yaml'') ''comment'' = Some (PyStr ''red wine'')"
    by code_simp
  have k: "''comment'' \<notin> set (keys (get_type_hints PreparationSettings))" by code_simp
  have g: "file_value (drop_unknown_keys PreparationSettings example_fs) (StrPath ''config.yaml'')
             ''comment'' = None"
    by code_simp
  have l: "load PreparationSettings object_ctor example_fs (FOne (StrPath ''config.yaml'')) io_paths =
     ([Opened ''config.yaml''], Inr ?inst)"
    by code_simp
  note t = unknown_file_keys_ignored [of PreparationSettings object_ctor example_fs
      "FOne (StrPath ''config.yaml'')" io_paths]
  from t have e: "load PreparationSettings object_ctor (drop_unknown_keys PreparationSettings example_fs)
       (FOne (StrPath ''config.yaml'')) io_paths =
     load PreparationSettings object_ctor example_fs (FOne (StrPath ''config.yaml'')) io_paths"
    by blast
  from t l k have a: "''comment'' \<notin> set (keys ?inst)" by blast
  from f k g l e a show ?thesis by blast
qed

text \<open>
  Claim C6. When the class is not a dataclass, \<^verbatim>\<open>load\<close> raises
  \<^verbatim>\<open>NotDataClassError\<close> and its trace is empty: no path was opened and no
  warning was logged, whatever the paths given and whether or not files exist there.
\<close>

theorem schema_validation_precedes_io:
  "\<not> is_dataclass cls \<Longrightarrow> load cls ctor fs filepaths params = ([], Inl NotDataClassError)"
  by (simp add: load_def)

text \<open>
  C6 at a concrete call: the class is not a dataclass and the path has no file.
\<close>

theorem schema_validation_precedes_io_witness:
  "\<not> is_dataclass PlainSettings \<and>
   example_fs ''missing.yaml'' = NoFile \<and>
   load PlainSettings object_ctor example_fs (FOne (StrPath ''missing.yaml'')) io_paths =
     ([], Inl NotDataClassError)"
proof -
  have h: "\<not> is_dataclass PlainSettings" by (simp add: PlainSettings_def)
  have n: "example_fs ''missing.yaml'' = NoFile" by (simp add: example_fs_def)
  show ?thesis using h n schema_validation_precedes_io [OF h] by simp
qed

text \<open>
  Claim C7. Let \<^verbatim>\<open>load\<close> be called on a dataclass with paths that can all be read
  as mappings, and let the file at \<open>p\<close> give the field \<open>k\<close> a value \<open>v\<close> while a
  file before it in the list gives \<open>k\<close> a value too, so that the accumulator holds
  \<open>k\<close> when \<open>p\<close> is merged. Then the trace of \<^verbatim>\<open>load\<close> has the warning right
  after the opening of \<open>p\<close> (one warning for the file, however many keys collide),
  and the merge ends with a mapping: the collision raises nothing. The value is
  overwritten: the merged mapping holds \<open>v\<close> for \<open>k\<close> unless a later file or a
  non-null override writes \<open>k\<close> again. If \<^verbatim>\<open>load\<close> fails at all, the exception is
  the one of the conversion, or the \<^verbatim>\<open>MissingParamError\<close> for a \<^verbatim>\<open>TypeError\<close> of
  the construction on the merged mapping.
\<close>

theorem duplicate_key_warning:
  assumes "is_dataclass cls"
    and "paths_read filepaths = ps1 @ p # ps2"
    and "\<forall>q \<in> set (paths_read filepaths). \<exists>c. read_config fs q = Inr c"
    and "k \<in> set (keys (get_type_hints cls))"
    and "q0 \<in> set ps1"
    and "file_value fs q0 k = Some u"
    and "file_value fs p k = Some v"
  shows "\<exists>tr1 tr2 m.
           fst (load cls ctor fs filepaths params) = tr1 @ Opened (path_str p) # Warning # tr2 \<and>
           merge_sources cls fs filepaths params =
             (tr1 @ Opened (path_str p) # Warning # tr2, Inr m) \<and>
           ((\<forall>q \<in> set ps2. file_value fs q k = None) \<longrightarrow>
              k \<notin> set (keys (overrides params)) \<longrightarrow> map_of m k = Some v) \<and>
           (\<forall>e. snd (load cls ctor fs filepaths params) = Inl e \<longrightarrow>
              convert_to_time cls ctor m = Inl e \<or>
              (e = MissingParamError \<and>
               (\<exists>m'. convert_to_time cls ctor m = Inr m' \<and> construct cls m' = Inl TypeError)))"
proof -
  from merge_sources_collision [OF assms(2-7), of params] obtain tr1 tr2 m where
    m: "merge_sources cls fs filepaths params = (tr1 @ Opened (path_str p) # Warning # tr2, Inr m)"
    and v: "(\<forall>q \<in> set ps2. file_value fs q k = None) \<longrightarrow>
              k \<notin> set (keys (overrides params)) \<longrightarrow> map_of m k = Some v"
    by blast
  have t: "fst (load cls ctor fs filepaths params) = tr1 @ Opened (path_str p) # Warning # tr2"
    using assms(1) m by (simp add: load_def split: sum.splits)
  have f: "\<forall>e. snd (load cls ctor fs filepaths params) = Inl e \<longrightarrow>
              convert_to_time cls ctor m = Inl e \<or>
              (e = MissingParamError \<and>
               (\<exists>m'. convert_to_time cls ctor m = Inr m' \<and> construct cls m' = Inl TypeError))"
    using load_failure_cause [OF assms(1) m] by blast
  from t m v f show ?thesis by blast
qed

text \<open>
  C7 on the scenario of the specification: \<^verbatim>\<open>config.yaml\<close> sets \<^verbatim>\<open>test_size\<close> to
  0.2 and \<^verbatim>\<open>extra.yaml\<close> sets it to 0.3; \<^verbatim>\<open>load\<close> logs the warning and returns the
  instance with 0.3.
\<close>

theorem duplicate_key_warning_witness:
  "is_dataclass PreparationSettings \<and>
   paths_read (FMany [StrPath ''config.yaml'', StrPath ''extra.yaml'']) =
     [StrPath ''config.yaml''] @ StrPath ''extra.yaml'' # [] \<and>
   ''test_size'' \<in> set (keys (get_type_hints PreparationSettings)) \<and>
   file_value example_fs (StrPath ''config.yaml'') ''test_size'' = Some (PyFloat 2 (-1)) \<and>
   file_value example_fs (StrPath ''extra.yaml'') ''test_size'' = Some (PyFloat 3 (-1)) \<and>
   (\<exists>tr1 tr2.
      fst (load PreparationSettings object_ctor example_fs
             (FMany [StrPath ''config.yaml'', StrPath ''extra.yaml'']) io_paths) =
        tr1 @ Opened ''extra.yaml'' # Warning # tr2) \<and>
   load PreparationSettings object_ctor example_fs
     (FMany [StrPath ''config.yaml'', StrPath ''extra.yaml'']) io_paths =
     ([Opened ''config.yaml'', Opened ''extra.yaml'', Warning],
      Inr [(''target'', PyStr ''quality''), (''test_size'', PyFloat 3 (-1)),
           (''in_path'', PyPath ''data/winequality-red.csv''),
           (''out_train'', PyPath ''data/train.parquet''),
           (''out_test'', PyPath ''data/test.parquet'')])"
proof -
  let ?fps = "FMany [StrPath ''config.yaml'', StrPath ''extra.yaml'']"
  have h1: "is_dataclass PreparationSettings" by (simp add: PreparationSettings_def)
  have h2: "paths_read ?fps = [StrPath ''config.yaml''] @ StrPath ''extra.yaml'' # []"
    by (simp add: paths_read_def)
  have c1: "read_config example_fs (StrPath ''config.yaml'') =
              Inr [(''target'', PyStr ''quality''), (''test_size'', PyFloat 2 (-1)),
                   (''comment'', PyStr ''red wine'')]" by code_simp
  have c2: "read_config example_fs (StrPath ''extra.yaml'') = Inr [(''test_size'', PyFloat 3 (-1))]"
    by code_simp
  have h3: "\<forall>q \<in> set (paths_read ?fps). \<exists>c. read_config example_fs q = Inr c"
    using c1 c2 by (simp add: paths_read_def)
  have h4: "''test_size'' \<in> set (keys (get_type_hints PreparationSettings))" by code_simp
  have h5: "StrPath ''config.yaml'' \<in> set [StrPath ''config.yaml'']" by simp
  have h6: "file_value example_fs (StrPath ''config.yaml'') ''test_size'' = Some (PyFloat 2 (-1))"
    by code_simp
  have h7: "file_value example_fs (StrPath ''extra.yaml'') ''test_size'' = Some (PyFloat 3 (-1))"
    by code_simp
  have l: "load PreparationSettings object_ctor example_fs ?fps io_paths =
     ([Opened ''config.yaml'', Opened ''extra.yaml'', Warning],
      Inr [(''target'', PyStr ''quality''), (''test_size'', PyFloat 3 (-1)),
           (''in_path'', PyPath ''data/winequality-red.csv''),
           (''out_train'', PyPath ''data/train.parquet''),
           (''out_test'', PyPath ''data/test.parquet'')])"
    by code_simp
  from duplicate_key_warning [OF h1 h2 h3 h4 h5 h6 h7, of object_ctor io_paths]
  have e: "\<exists>tr1 tr2. fst (load PreparationSettings object_ctor example_fs ?fps io_paths) =
        tr1 @ Opened ''extra.yaml'' # Warning # tr2"
    by auto
  from h1 h2 h4 h6 h7 e l show ?thesis by blast
qed

text \<open>
  Claim C8, as amended. An instance that \<^verbatim>\<open>load\<close> returns has exactly the fields
  of the schema as attributes, and every field that has no default received a value
  from a file that was read (possibly the value \<^verbatim>\<open>None\<close>) or from a non-null
  override. When the class is declared frozen, as \<^verbatim>\<open>PreparationSettings\<close> is,
  assigning to an attribute of the instance raises \<^verbatim>\<open>FrozenInstanceError\<close>.
\<close>

theorem instance_invariant:
  assumes "load cls ctor fs filepaths params = (tr, Inr inst)"
  shows "keys inst = keys (get_type_hints cls) \<and>
         (\<forall>f \<in> set (keys (get_type_hints cls)).
            f \<in> set (keys (defaults cls)) \<or>
            (\<exists>p \<in> set (paths_read filepaths). file_value fs p f \<noteq> None) \<or>
            f \<in> set (keys (overrides params))) \<and>
         (frozen cls \<longrightarrow> (\<forall>f v. setattr cls inst f v = Inl FrozenInstanceError))"
proof (intro conjI ballI)
  from assms obtain m m' where m: "merge_sources cls fs filepaths params = (tr, Inr m)"
    and c: "convert_to_time cls ctor m = Inr m'" and i: "construct cls m' = Inr inst"
    by (rule load_Inr)
  from m obtain acc where
    r: "read_files fs (keys (get_type_hints cls)) (paths_read filepaths) [] = (tr, Inr acc)"
    and u: "m = dict_update acc (overrides params)"
    by (rule merge_sources_Inr)
  show "keys inst = keys (get_type_hints cls)" by (rule construct_Inr(1) [OF i])
  show "frozen cls \<longrightarrow> (\<forall>f v. setattr cls inst f v = Inl FrozenInstanceError)"
    by (simp add: setattr_def)
  fix f assume f: "f \<in> set (keys (get_type_hints cls))"
  show "f \<in> set (keys (defaults cls)) \<or>
        (\<exists>p \<in> set (paths_read filepaths). file_value fs p f \<noteq> None) \<or>
        f \<in> set (keys (overrides params))"
  proof (cases "f \<in> set (keys (defaults cls))")
    case True
    then show ?thesis by simp
  next
    case False
    with construct_Inr(3) [OF i] f have "f \<in> set (keys m')" by blast
    then have "f \<in> set (keys m)" using convert_to_time_keys [OF c] by simp
    then have "f \<in> set (keys acc) \<or> f \<in> set (keys (overrides params))"
      unfolding u by (simp add: keys_dict_update)
    then show ?thesis
    proof
      assume "f \<in> set (keys acc)"
      then have "map_of acc f \<noteq> None" by (simp add: in_keys_iff)
      from read_files_source [OF r this]
      have "\<exists>p \<in> set (paths_read filepaths). file_value fs p f \<noteq> None" by simp
      then show ?thesis by simp
    next
      assume "f \<in> set (keys (overrides params))"
      then show ?thesis by simp
    qed
  qed
qed

text \<open>
  The amended C8 on the first scenario of the specification, for
  \<^verbatim>\<open>PreparationSettings\<close>.
\<close>

theorem instance_invariant_witness:
  "load PreparationSettings object_ctor example_fs (FOne (StrPath ''config.yaml'')) io_paths =
     ([Opened ''config.yaml''],
      Inr [(''target'', PyStr ''quality''), (''test_size'', PyFloat 2 (-1)),
           (''in_path'', PyPath ''data/winequality-red.csv''),
           (''out_train'', PyPath ''data/train.parquet''),
           (''out_test'', PyPath ''data/test.parquet'')]) \<and>
   frozen PreparationSettings \<and>
   keys [(''target'', PyStr ''quality''), (''test_size'', PyFloat 2 (-1)),
           (''in_path'', PyPath ''data/winequality-red.csv''),
           (''out_train'', PyPath ''data/train.parquet''),
           (''out_test'', PyPath ''data/test.parquet'')] = keys (get_type_hints PreparationSettings) \<and>
   setattr PreparationSettings
       [(''target'', PyStr ''quality''), (''test_size'', PyFloat 2 (-1)),
        (''in_path'', PyPath ''data/winequality-red.csv''),
        (''out_train'', PyPath ''data/train.parquet''),
        (''out_test'', PyPath ''data/test.parquet'')] ''test_size'' (PyFloat 5 (-1)) =
     Inl FrozenInstanceError"
proof -
  let ?inst = "[(''target'', PyStr ''quality''), (''test_size'', PyFloat 2 (-1)),
        (''in_path'', PyPath ''data/winequality-red.csv''),
        (''out_train'', PyPath ''data/train.parquet''),
        (''out_test'', PyPath ''data/test.parquet'')]"
  have l: "load PreparationSettings object_ctor example_fs (FOne (StrPath ''config.yaml'')) io_paths =
     ([Opened ''config.yaml''], Inr ?inst)"
    by code_simp
  have fr: "frozen PreparationSettings" by (simp add: PreparationSettings_def)
  from instance_invariant [OF l] fr
  have "keys ?inst = keys (get_type_hints PreparationSettings) \<and>
        setattr PreparationSettings ?inst ''test_size'' (PyFloat 5 (-1)) = Inl FrozenInstanceError"
    by blast
  with l fr show ?thesis by blast
qed

text \<open>
  Claim C8 as stated fails for a dataclass that is not frozen and has a default:
  \<^verbatim>\<open>load\<close> returns an instance although no file and no override gives
  \<^verbatim>\<open>retries\<close> a value, and the attribute can be assigned afterwards.
\<close>

theorem instance_invariant_counterexample:
  "load RetrySettings object_ctor example_fs FNone [] = ([], Inr [(''retries'', PyInt 3)]) \<and>
   paths_read FNone = [] \<and>
   overrides [] = [] \<and>
   setattr RetrySettings [(''retries'', PyInt 3)] ''retries'' (PyInt 5) = Inr [(''retries'', PyInt 5)]"
  by code_simp

text \<open>
  Claim C9, as amended. Let the class be a dataclass and let the keyword arguments
  hold a key \<open>k\<close> that is no field, with a value other than \<^verbatim>\<open>None\<close>. Then
  \<^verbatim>\<open>load\<close> returns no instance. When the files are read and merged, the merged
  mapping holds \<open>k\<close>; when the conversion then raises nothing, the construction
  fails with \<^verbatim>\<open>TypeError\<close> and \<^verbatim>\<open>load\<close> raises \<^verbatim>\<open>MissingParamError\<close>. An
  earlier exception propagates instead, unchanged: when the conversion raises \<open>e\<close>,
  \<^verbatim>\<open>load\<close> raises \<open>e\<close>; when the first path that cannot be read as a mapping
  fails with \<open>e\<close>, \<^verbatim>\<open>load\<close> raises \<open>e\<close>. There is no other case.
\<close>

theorem unknown_override_key:
  assumes "is_dataclass cls"
    and "(k, v) \<in> set params"
    and "v \<noteq> PyNone"
    and "k \<notin> set (keys (get_type_hints cls))"
  shows "(\<forall>inst. snd (load cls ctor fs filepaths params) \<noteq> Inr inst) \<and>
         (\<forall>tr m. merge_sources cls fs filepaths params = (tr, Inr m) \<longrightarrow>
            k \<in> set (keys m) \<and>
            (\<forall>m'. convert_to_time cls ctor m = Inr m' \<longrightarrow>
               construct cls m' = Inl TypeError \<and>
               load cls ctor fs filepaths params = (tr, Inl MissingParamError))) \<and>
         (\<forall>tr m e. merge_sources cls fs filepaths params = (tr, Inr m) \<longrightarrow>
            convert_to_time cls ctor m = Inl e \<longrightarrow>
            load cls ctor fs filepaths params = (tr, Inl e)) \<and>
         (\<forall>ps1 p ps2 e. paths_read filepaths = ps1 @ p # ps2 \<longrightarrow>
            (\<forall>q \<in> set ps1. \<exists>c. read_config fs q = Inr c) \<longrightarrow>
            read_config fs p = Inl e \<longrightarrow>
            snd (load cls ctor fs filepaths params) = Inl e) \<and>
         ((\<exists>tr m. merge_sources cls fs filepaths params = (tr, Inr m)) \<or>
          (\<exists>ps1 p ps2 e. paths_read filepaths = ps1 @ p # ps2 \<and>
             (\<forall>q \<in> set ps1. \<exists>c. read_config fs q = Inr c) \<and> read_config fs p = Inl e))"
proof -
  have ko: "k \<in> set (keys (overrides params))"
    using assms(2,3) by (force simp: overrides_def keys_def)
  have km: "k \<in> set (keys m)"
    if m: "merge_sources cls fs filepaths params = (tr, Inr m)" for tr m
  proof -
    from m obtain acc where "m = dict_update acc (overrides params)"
      by (rule merge_sources_Inr)
    with ko show ?thesis by (simp add: keys_dict_update)
  qed
  have fail: "construct cls m' = Inl TypeError"
    if m: "merge_sources cls fs filepaths params = (tr, Inr m)"
      and c: "convert_to_time cls ctor m = Inr m'" for tr m m'
  proof -
    have "k \<in> set (keys m')" using km [OF m] convert_to_time_keys [OF c] by simp
    then show ?thesis using assms(4) by (rule construct_unknown)
  qed
  have a: "\<forall>inst. snd (load cls ctor fs filepaths params) \<noteq> Inr inst"
  proof
    fix inst show "snd (load cls ctor fs filepaths params) \<noteq> Inr inst"
      by (rule load_never_Inr) (rule fail)
  qed
  have b: "\<forall>tr m. merge_sources cls fs filepaths params = (tr, Inr m) \<longrightarrow>
            k \<in> set (keys m) \<and>
            (\<forall>m'. convert_to_time cls ctor m = Inr m' \<longrightarrow>
               construct cls m' = Inl TypeError \<and>
               load cls ctor fs filepaths params = (tr, Inl MissingParamError))"
  proof (intro allI impI conjI)
    fix tr m assume m: "merge_sources cls fs filepaths params = (tr, Inr m)"
    show "k \<in> set (keys m)" by (rule km [OF m])
    fix m' assume c: "convert_to_time cls ctor m = Inr m'"
    show "construct cls m' = Inl TypeError" by (rule fail [OF m c])
    show "load cls ctor fs filepaths params = (tr, Inl MissingParamError)"
      using load_reached [OF assms(1) m c] fail [OF m c] by simp
  qed
  have c: "\<forall>tr m e. merge_sources cls fs filepaths params = (tr, Inr m) \<longrightarrow>
            convert_to_time cls ctor m = Inl e \<longrightarrow>
            load cls ctor fs filepaths params = (tr, Inl e)"
    using load_conversion_error [OF assms(1)] by blast
  have d: "\<forall>ps1 p ps2 e. paths_read filepaths = ps1 @ p # ps2 \<longrightarrow>
            (\<forall>q \<in> set ps1. \<exists>c. read_config fs q = Inr c) \<longrightarrow>
            read_config fs p = Inl e \<longrightarrow>
            snd (load cls ctor fs filepaths params) = Inl e"
    using load_file_error [OF assms(1)] by blast
  from a b c d load_stages [of cls fs filepaths params] show ?thesis by blast
qed

text \<open>
  The amended C9 at a concrete call: every field is supplied, and the extra keyword
  \<^verbatim>\<open>verbose\<close> makes \<^verbatim>\<open>load\<close> raise \<^verbatim>\<open>MissingParamError\<close>.
\<close>

theorem unknown_override_key_witness:
  "is_dataclass PreparationSettings \<and>
   (''verbose'', PyBool True) \<in> set (io_paths @ [(''verbose'', PyBool True)]) \<and>
   PyBool True \<noteq> PyNone \<and>
   ''verbose'' \<notin> set (keys (get_type_hints PreparationSettings)) \<and>
   ''verbose'' \<in> set (keys
       [(''target'', PyStr ''quality''), (''test_size'', PyFloat 2 (-1)),
        (''in_path'', PyPath ''data/winequality-red.csv''),
        (''out_train'', PyPath ''data/train.parquet''),
        (''out_test'', PyPath ''data/test.parquet''), (''verbose'', PyBool True)]) \<and>
   load PreparationSettings object_ctor example_fs (FOne (StrPath ''config.yaml''))
     (io_paths @ [(''verbose'', PyBool True)]) = ([Opened ''config.yaml''], Inl MissingParamError)"
proof -
  let ?params = "io_paths @ [(''verbose'', PyBool True)]"
  let ?m = "[(''target'', PyStr ''quality''), (''test_size'', PyFloat 2 (-1)),
        (''in_path'', PyPath ''data/winequality-red.csv''),
        (''out_train'', PyPath ''data/train.parquet''),
        (''out_test'', PyPath ''data/test.parquet''), (''verbose'', PyBool True)]"
  have h1: "is_dataclass PreparationSettings" by (simp add: PreparationSettings_def)
  have h2: "(''verbose'', PyBool True) \<in> set ?params" by simp
  have h3: "PyBool True \<noteq> PyNone" by simp
  have h4: "''verbose'' \<notin> set (keys (get_type_hints PreparationSettings))" by code_simp
  have m: "merge_sources PreparationSettings example_fs (FOne (StrPath ''config.yaml'')) ?params =
             ([Opened ''config.yaml''], Inr ?m)"
    by code_simp
  have c: "convert_to_time PreparationSettings object_ctor ?m = Inr ?m" by code_simp
  from unknown_override_key [OF h1 h2 h3 h4, of object_ctor example_fs "FOne (StrPath ''config.yaml'')"] m c
  have "''verbose'' \<in> set (keys ?m) \<and>
        load PreparationSettings object_ctor example_fs (FOne (StrPath ''config.yaml'')) ?params =
          ([Opened ''config.yaml''], Inl MissingParamError)"
    by blast
  with h1 h2 h3 h4 show ?thesis by blast
qed

text \<open>
  Claim C9 as stated fails when a listed file cannot be opened: the unknown keyword
  is there, and \<^verbatim>\<open>load\<close> raises \<^verbatim>\<open>FileNotFoundError\<close> before the overrides are
  looked at.
\<close>

theorem unknown_override_key_counterexample:
  "(''verbose'', PyBool True) \<in> set (io_paths @ [(''verbose'', PyBool True)]) \<and>
   ''verbose'' \<notin> set (keys (get_type_hints PreparationSettings)) \<and>
   load PreparationSettings object_ctor example_fs (FOne (StrPath ''missing.yaml''))
     (io_paths @ [(''verbose'', PyBool True)]) = ([Opened ''missing.yaml''], Inl FileNotFoundError)"
  by code_simp



end
